theory Spec2Isabelle
  imports Main "HOL-Library.Sublist" "HOL-Library.AList" "HOL-Library.Char_ord"
    "HOL-Library.List_Lexorder" "HOL-Library.Multiset"
begin

section \<open>Python strings and integers, as far as the code uses them\<close>

text \<open>
  A Python \<open>str\<close> is modelled as a \<open>string\<close>; one \<open>char\<close> stands for one code point
  below 256, so \<open>length\<close> is Python's \<open>len\<close> on such text. \<open>sublist\<close> is Python's
  \<open>in\<close> on strings (a contiguous occurrence).
\<close>

definition nl :: string where
  "nl = [CHR 0x0A]"

definition quote :: string where
  "quote = [CHR 0x27]"

definition dquote :: string where
  "dquote = [CHR 0x22]"

definition backtick :: string where
  "backtick = [CHR 0x60]"

definition isspace :: "char \<Rightarrow> bool" where
  \<comment> \<open>\<open>str.isspace\<close> on the code points below 256: 9..13, 28..32, 133 and 160.\<close>
  "isspace c = (let n = (of_char c :: nat)
                in (9 \<le> n \<and> n \<le> 13) \<or> (28 \<le> n \<and> n \<le> 32) \<or> n = 133 \<or> n = 160)"

definition isspace_bytes :: "char \<Rightarrow> bool" where
  \<comment> \<open>the whitespace of \<open>bytes.strip\<close>: space, tab, newline, return, VT and FF.\<close>
  "isspace_bytes c = (let n = (of_char c :: nat) in (9 \<le> n \<and> n \<le> 13) \<or> n = 32)"

definition strip_with :: "(char \<Rightarrow> bool) \<Rightarrow> string \<Rightarrow> string" where
  "strip_with ws s = rev (dropWhile ws (rev (dropWhile ws s)))"

definition strip :: "string \<Rightarrow> string" where
  \<comment> \<open>\<open>str.strip()\<close>\<close>
  "strip s = strip_with isspace s"

fun split_on :: "char \<Rightarrow> string \<Rightarrow> string list" where
  \<comment> \<open>\<open>s.split(sep)\<close> for a one-character separator; \<open>''.split('.')\<close> is \<open>['']\<close>.\<close>
  "split_on sep [] = [[]]"
| "split_on sep (c # cs) =
     (if c = sep then [] # split_on sep cs
      else (case split_on sep cs of
              [] \<Rightarrow> [[c]]
            | p # ps \<Rightarrow> (c # p) # ps))"

fun join :: "string \<Rightarrow> string list \<Rightarrow> string" where
  \<comment> \<open>\<open>sep.join(parts)\<close>\<close>
  "join sep [] = []"
| "join sep [p] = p"
| "join sep (p # q # ps) = p @ sep @ join sep (q # ps)"

definition digit_char :: "nat \<Rightarrow> char" where
  "digit_char d = ''0123456789'' ! d"

fun str_nat :: "nat \<Rightarrow> string" where
  "str_nat n = (if n < 10 then [digit_char n] else str_nat (n div 10) @ [digit_char (n mod 10)])"

declare str_nat.simps [simp del]

definition str_int :: "int \<Rightarrow> string" where
  \<comment> \<open>\<open>str(i)\<close> for a Python int\<close>
  "str_int i = (if i < 0 then CHR ''-'' # str_nat (nat (- i)) else str_nat (nat i))"

definition slice_to :: "'a list \<Rightarrow> int \<Rightarrow> 'a list" where
  \<comment> \<open>\<open>xs[:k]\<close>: a negative \<open>k\<close> counts from the end.\<close>
  "slice_to xs k = (if 0 \<le> k then take (nat k) xs else take (length xs - nat (- k)) xs)"

text \<open>
  \<open>repr\<close> of a \<open>str\<close>: between double quotes when the text holds a single quote and no
  double quote, between single quotes otherwise; the backslash and the enclosing quote are
  escaped, tab, newline and return are written \<open>\t\<close>, \<open>\n\<close>, \<open>\r\<close>, and any other code point
  that is not printable (below 32, 127 to 160, and 173) is written \<open>\xhh\<close>.
\<close>

definition backslash :: char where
  "backslash = CHR 0x5C"

definition hex_digit :: "nat \<Rightarrow> char" where
  "hex_digit d = ''0123456789abcdef'' ! d"

definition printable :: "char \<Rightarrow> bool" where
  "printable c = (let n = (of_char c :: nat)
                  in (32 \<le> n \<and> n < 127) \<or> (161 \<le> n \<and> n \<noteq> 173))"

definition repr_char :: "char \<Rightarrow> char \<Rightarrow> string" where
  "repr_char q c =
     (if c = q \<or> c = backslash then [backslash, c]
      else if c = CHR 0x09 then [backslash, CHR ''t'']
      else if c = CHR 0x0A then [backslash, CHR ''n'']
      else if c = CHR 0x0D then [backslash, CHR ''r'']
      else if printable c then [c]
      else [backslash, CHR ''x'', hex_digit ((of_char c :: nat) div 16),
            hex_digit ((of_char c :: nat) mod 16)])"

definition repr_str :: "string \<Rightarrow> string" where
  "repr_str s =
     (let q = (if CHR 0x27 \<in> set s \<and> CHR 0x22 \<notin> set s then CHR 0x22 else CHR 0x27)
      in q # concat (map (repr_char q) s) @ [q])"

section \<open>Exceptions and values\<close>

text \<open>
  An exception object carries what the handlers of the code read: the name of its class,
  the names of the classes it is an instance of (its class first), \<open>str(e)\<close>, and for a
  syntax error \<open>e.lineno\<close> (which may be \<open>None\<close>) and \<open>e.msg\<close>.
\<close>

record py_exc =
  exc_type :: string
  exc_mro :: "string list"
  exc_str :: string
  exc_lineno :: "int option"
  exc_msg :: string

definition isinstance :: "py_exc \<Rightarrow> string \<Rightarrow> bool" where
  "isinstance e cls = (cls \<in> set (exc_mro e))"

definition raise_exc :: "string \<Rightarrow> string list \<Rightarrow> string \<Rightarrow> py_exc" where
  \<comment> \<open>\<open>Cls(message)\<close> for a class \<open>Cls\<close> with the given ancestors\<close>
  "raise_exc cls ancestors message =
     \<lparr>exc_type = cls, exc_mro = cls # ancestors, exc_str = message,
      exc_lineno = None, exc_msg = []\<rparr>"

definition ImportError :: "string \<Rightarrow> py_exc" where
  "ImportError m = raise_exc ''ImportError'' [''Exception'', ''BaseException''] m"

definition TimeoutError :: "string \<Rightarrow> py_exc" where
  "TimeoutError m = raise_exc ''TimeoutError'' [''OSError'', ''Exception'', ''BaseException''] m"

definition ValueError :: "string \<Rightarrow> py_exc" where
  "ValueError m = raise_exc ''ValueError'' [''Exception'', ''BaseException''] m"

definition AttributeError :: "string \<Rightarrow> py_exc" where
  "AttributeError m = raise_exc ''AttributeError'' [''Exception'', ''BaseException''] m"

definition FileNotFoundError :: "string \<Rightarrow> py_exc" where
  "FileNotFoundError m =
     raise_exc ''FileNotFoundError'' [''OSError'', ''Exception'', ''BaseException''] m"

text \<open>The values a caller can pass as an argument or receive as a result.\<close>

datatype pyval =
    PyNone
  | PyBool bool
  | PyInt int
  | PyStr string
  | PyBytes string
  | PyList "pyval list"
  | PyDict "(pyval \<times> pyval) list"

fun truthy :: "pyval \<Rightarrow> bool" where
  "truthy PyNone = False"
| "truthy (PyBool b) = b"
| "truthy (PyInt i) = (i \<noteq> 0)"
| "truthy (PyStr s) = (s \<noteq> [])"
| "truthy (PyBytes s) = (s \<noteq> [])"
| "truthy (PyList vs) = (vs \<noteq> [])"
| "truthy (PyDict kvs) = (kvs \<noteq> [])"

fun type_name :: "pyval \<Rightarrow> string" where
  "type_name PyNone = ''NoneType''"
| "type_name (PyBool b) = ''bool''"
| "type_name (PyInt i) = ''int''"
| "type_name (PyStr s) = ''str''"
| "type_name (PyBytes s) = ''bytes''"
| "type_name (PyList vs) = ''list''"
| "type_name (PyDict kvs) = ''dict''"

fun strip_method :: "pyval \<Rightarrow> py_exc + pyval" where
  \<comment> \<open>\<open>v.strip()\<close>: only \<open>str\<close> and \<open>bytes\<close> have the method.\<close>
  "strip_method (PyStr s) = Inr (PyStr (strip s))"
| "strip_method (PyBytes s) = Inr (PyBytes (strip_with isspace_bytes s))"
| "strip_method v =
     Inl (AttributeError (quote @ type_name v @ quote @
                          '' object has no attribute '' @ quote @ ''strip'' @ quote))"

text \<open>The objects a namespace binds.\<close>

datatype pyobj =
    Builtin string
  | SafeImport "string list"
  | Module string
  | Str string
  | NoneObj
  | BuiltinsDict "(string \<times> pyobj) list"
  | HostBuiltins
  | Function string

type_synonym namespace = "(string \<times> pyobj) list"

section \<open>The Python runtime\<close>

text \<open>
  \<open>exec\<close>, \<open>signal.alarm\<close>, the real \<open>__import__\<close>, \<open>ast.parse\<close> and the call of a function
  object belong to the interpreter, not to the repository: they are parameters of the
  model. A run of \<open>exec\<close> emits text and then completes, raises, or never returns. Under
  an armed alarm it may instead be interrupted: the alarm fires, the handler of
  \<open>timeout_handler\<close> raises and that exception leaves \<open>exec\<close>.
\<close>

datatype ending = Completed | Raised py_exc | Hangs

record run =
  emitted :: string
  ending :: ending

datatype governed = Finished run | Expired string

datatype node_kind = Module_node | FunctionDef string | AsyncFunctionDef string
  | ClassDef string | Other_node

datatype ast = Node node_kind "ast list"

text \<open>A reading of \<open>datetime.now()\<close>, by its \<open>isoformat()\<close> and its \<open>strftime("%Y-%m-%d")\<close>.\<close>

record moment =
  iso :: string
  ymd :: string

datatype module_run = Bound namespace | Exec_raised py_exc | Exec_hangs

datatype call_run = Value pyval | Call_raised py_exc | Call_hangs

record runtime =
  rt_alarm :: "int \<Rightarrow> py_exc + nat option"
  rt_exec_unbounded :: "namespace \<Rightarrow> string \<Rightarrow> run"
  rt_exec_bounded :: "namespace \<Rightarrow> string \<Rightarrow> nat \<Rightarrow> governed"
  rt_import :: "string \<Rightarrow> py_exc + pyobj"
  rt_tools :: bool
  rt_exec_module :: "namespace \<Rightarrow> string \<Rightarrow> module_run"
  rt_call :: "pyobj \<Rightarrow> (string \<times> pyval) list \<Rightarrow> call_run"
  rt_parse :: "string \<Rightarrow> py_exc + ast"
  rt_clock :: "nat \<Rightarrow> moment"

datatype event = Exec namespace string | Call pyobj "(string \<times> pyval) list"

datatype 'a outcome = Returned 'a | Propagated py_exc | NoReturn

section \<open>execute_code.py\<close>

definition DEFAULT_TIMEOUT :: int where
  "DEFAULT_TIMEOUT = 30"

definition MAX_OUTPUT_SIZE :: int where
  "MAX_OUTPUT_SIZE = 100000"

definition ALLOWED_IMPORTS :: "string list" where
  "ALLOWED_IMPORTS =
     [''log_store'', ''privacy'', ''workspace'',
      ''json'', ''re'', ''math'', ''datetime'', ''collections'', ''itertools'',
      ''functools'', ''operator'', ''string'', ''textwrap'', ''unicodedata'',
      ''statistics'', ''random'', ''hashlib'', ''base64'', ''copy'', ''pprint'',
      ''enum'', ''dataclasses'', ''typing'', ''time'', ''csv'']"

definition RESTRICTED_BUILTINS :: "string list" where
  "RESTRICTED_BUILTINS =
     [''abs'', ''all'', ''any'', ''ascii'', ''bin'', ''bool'', ''bytearray'', ''bytes'',
      ''callable'', ''chr'', ''classmethod'', ''complex'', ''dict'', ''dir'', ''divmod'',
      ''enumerate'', ''filter'', ''float'', ''format'', ''frozenset'', ''getattr'',
      ''hasattr'', ''hash'', ''hex'', ''id'', ''int'', ''isinstance'', ''issubclass'',
      ''iter'', ''len'', ''list'', ''map'', ''max'', ''min'', ''next'', ''object'', ''oct'',
      ''ord'', ''pow'', ''print'', ''property'', ''range'', ''repr'', ''reversed'', ''round'',
      ''set'', ''setattr'', ''slice'', ''sorted'', ''staticmethod'', ''str'', ''sum'',
      ''super'', ''tuple'', ''type'', ''vars'', ''zip'',
      ''Exception'', ''BaseException'', ''ValueError'', ''TypeError'', ''KeyError'',
      ''IndexError'', ''AttributeError'', ''RuntimeError'', ''StopIteration'',
      ''None'', ''True'', ''False'']"

definition BLOCKED_BUILTINS :: "string list" where
  "BLOCKED_BUILTINS =
     [''open'', ''exec'', ''eval'', ''compile'', ''__import__'', ''input'', ''breakpoint'',
      ''globals'', ''locals'', ''memoryview'']"

definition base_module :: "string \<Rightarrow> string" where
  \<comment> \<open>\<open>name.split('.')[0]\<close>\<close>
  "base_module name = hd (split_on CHR ''.'' name)"

definition import_rejected :: "string list \<Rightarrow> string \<Rightarrow> string" where
  \<comment> \<open>the message of the \<open>ImportError\<close> that \<open>safe_import\<close> raises\<close>
  "import_rejected allowed_modules name =
     ''Import of '' @ quote @ name @ quote @ '' is not allowed. '' @
     ''Allowed modules: '' @ join '', '' (sort (remdups allowed_modules))"

definition create_safe_import ::
  "(string \<Rightarrow> py_exc + pyobj) \<Rightarrow> string list \<Rightarrow> string \<Rightarrow> py_exc + pyobj" where
  \<comment> \<open>\<open>create_safe_import(allowed_modules)\<close> applied to \<open>name\<close>; the first argument is the
      real \<open>__import__\<close> of the interpreter\<close>
  "create_safe_import real_import allowed_modules name =
     (if base_module name \<notin> set allowed_modules
      then Inl (ImportError (import_rejected allowed_modules name))
      else real_import name)"

definition timeout_message :: "int \<Rightarrow> string" where
  "timeout_message seconds =
     ''Code execution timed out after '' @ str_int seconds @ '' seconds''"

definition signal_handler :: "int \<Rightarrow> py_exc" where
  \<comment> \<open>what the handler installed by \<open>timeout_handler(seconds)\<close> raises\<close>
  "signal_handler seconds = TimeoutError (timeout_message seconds)"

definition sandbox_tools :: "runtime \<Rightarrow> namespace" where
  \<comment> \<open>the three tool modules are bound together, or not at all when an import fails\<close>
  "sandbox_tools rt =
     (if rt_tools rt
      then [(''log_store'', Module ''log_store''), (''privacy'', Module ''privacy''),
            (''workspace'', Module ''workspace'')]
      else [])"

definition safe_builtins :: "(string \<times> pyobj) list" where
  \<comment> \<open>every name of \<open>RESTRICTED_BUILTINS\<close> is a builtin of Python 3, so \<open>hasattr\<close> holds\<close>
  "safe_builtins =
     map (\<lambda>name. (name, Builtin name)) RESTRICTED_BUILTINS @
     [(''__import__'', SafeImport ALLOWED_IMPORTS)]"

definition create_execution_globals :: "runtime \<Rightarrow> namespace" where
  "create_execution_globals rt =
     [(''__builtins__'', BuiltinsDict safe_builtins),
      (''__name__'', Str ''__sandbox__''),
      (''__doc__'', NoneObj)] @ sandbox_tools rt"

text \<open>
  An \<open>import\<close> statement executed under a namespace calls the \<open>__import__\<close> that the
  \<open>__builtins__\<close> of that namespace hold: the gate of \<open>create_safe_import\<close> where it is
  installed, the real \<open>__import__\<close> of the interpreter under the builtins of the host.
\<close>

definition import_statement ::
  "(string \<Rightarrow> py_exc + pyobj) \<Rightarrow> namespace \<Rightarrow> string \<Rightarrow> py_exc + pyobj" where
  "import_statement real_import exec_globals name =
     (case map_of exec_globals ''__builtins__'' of
        Some (BuiltinsDict b) \<Rightarrow>
          (case map_of b ''__import__'' of
             Some (SafeImport allowed) \<Rightarrow> create_safe_import real_import allowed name
           | Some (Builtin f) \<Rightarrow> real_import name
           | _ \<Rightarrow> Inl (ImportError ''__import__ not found''))
      | Some HostBuiltins \<Rightarrow> real_import name
      | _ \<Rightarrow> Inl (ImportError ''__import__ not found''))"

record envelope =
  success :: bool
  output_text :: string
  error :: string
  truncated :: bool

definition str_lineno :: "int option \<Rightarrow> string" where
  "str_lineno l = (case l of None \<Rightarrow> ''None'' | Some i \<Rightarrow> str_int i)"

definition except_clauses :: "py_exc \<Rightarrow> string option" where
  \<comment> \<open>the \<open>except\<close> chain of \<open>execute_code\<close>: the error text, or \<open>None\<close> when no clause matches\<close>
  "except_clauses e =
     (if isinstance e ''TimeoutError'' then Some (exc_str e)
      else if isinstance e ''ImportError'' then Some (''Import error: '' @ exc_str e)
      else if isinstance e ''SyntaxError''
        then Some (''Syntax error at line '' @ str_lineno (exc_lineno e) @ '': '' @ exc_msg e)
      else if isinstance e ''Exception'' then Some (exc_type e @ '': '' @ exc_str e)
      else None)"

definition truncation_marker :: "int \<Rightarrow> string" where
  "truncation_marker max_output =
     nl @ ''... [OUTPUT TRUNCATED - exceeded '' @ str_int max_output @ '' chars]''"

definition cap_output :: "string \<Rightarrow> int \<Rightarrow> string \<times> bool" where
  \<comment> \<open>the \<open>finally\<close> block: the output and the truncated flag\<close>
  "cap_output captured max_output =
     (if int (length captured) > max_output
      then (slice_to captured max_output @ truncation_marker max_output, True)
      else (captured, False))"

definition attempt :: "runtime \<Rightarrow> string \<Rightarrow> int \<Rightarrow> (ending \<times> string) \<times> event list" where
  \<comment> \<open>the body of the \<open>try\<close>: how it ends, the text captured, and the calls of \<open>exec\<close>\<close>
  "attempt rt src timeout =
     (let exec_globals = create_execution_globals rt in
      case rt_alarm rt timeout of
        Inl e \<Rightarrow> ((Raised e, []), [])
      | Inr None \<Rightarrow>
          (let r = rt_exec_unbounded rt exec_globals src
           in ((ending r, emitted r), [Exec exec_globals src]))
      | Inr (Some n) \<Rightarrow>
          (case rt_exec_bounded rt exec_globals src n of
             Finished r \<Rightarrow> ((ending r, emitted r), [Exec exec_globals src])
           | Expired out \<Rightarrow> ((Raised (signal_handler timeout), out), [Exec exec_globals src])))"

definition finish :: "ending \<Rightarrow> string \<Rightarrow> int \<Rightarrow> envelope outcome" where
  \<comment> \<open>the \<open>except\<close> clauses, the \<open>finally\<close> block and the \<open>return\<close>\<close>
  "finish en captured max_output =
     (let (out, trunc) = cap_output captured max_output in
      case en of
        Completed \<Rightarrow> Returned \<lparr>success = True, output_text = out, error = [], truncated = trunc\<rparr>
      | Raised e \<Rightarrow>
          (case except_clauses e of
             Some msg \<Rightarrow>
               Returned \<lparr>success = False, output_text = out, error = msg, truncated = trunc\<rparr>
           | None \<Rightarrow> Propagated e)
      | Hangs \<Rightarrow> NoReturn)"

definition rejected :: "string \<Rightarrow> envelope" where
  "rejected msg = \<lparr>success = False, output_text = [], error = msg, truncated = False\<rparr>"

definition execute_code ::
  "runtime \<Rightarrow> pyval \<Rightarrow> int \<Rightarrow> int \<Rightarrow> envelope outcome \<times> event list" where
  "execute_code rt code timeout max_output =
     (if \<not> truthy code then (Returned (rejected ''No code provided''), [])
      else case strip_method code of
        Inl e \<Rightarrow> (Propagated e, [])
      | Inr stripped \<Rightarrow>
          if \<not> truthy stripped then (Returned (rejected ''No code provided''), [])
          else (case code of
                  PyStr src \<Rightarrow>
                    (let ((en, captured), tr) = attempt rt src timeout
                     in (finish en captured max_output, tr))
                | _ \<Rightarrow> (Returned (rejected ''Code must be a string''), [])))"

section \<open>skills.py\<close>

definition MAX_SKILL_SIZE :: nat where
  "MAX_SKILL_SIZE = 50 * 1024"

definition MAX_SKILLS :: nat where
  "MAX_SKILLS = 100"

definition isalnum :: "char \<Rightarrow> bool" where
  \<comment> \<open>\<open>str.isalnum\<close> on one code point below 256\<close>
  "isalnum c = (let n = (of_char c :: nat)
                in (48 \<le> n \<and> n \<le> 57) \<or> (65 \<le> n \<and> n \<le> 90) \<or> (97 \<le> n \<and> n \<le> 122) \<or>
                   n \<in> {170, 178, 179, 181, 185, 186, 188, 189, 190} \<or>
                   (192 \<le> n \<and> n \<le> 214) \<or> (216 \<le> n \<and> n \<le> 246) \<or> (248 \<le> n \<and> n \<le> 255))"

definition str_isalnum :: "string \<Rightarrow> bool" where
  \<comment> \<open>\<open>s.isalnum()\<close>: false on the empty string\<close>
  "str_isalnum s = (s \<noteq> [] \<and> list_all isalnum s)"

definition remove_char :: "char \<Rightarrow> string \<Rightarrow> string" where
  \<comment> \<open>\<open>s.replace(c, '')\<close>\<close>
  "remove_char c s = filter (\<lambda>x. x \<noteq> c) s"

definition lower_char :: "char \<Rightarrow> char" where
  "lower_char c = (let n = (of_char c :: nat)
                   in if (65 \<le> n \<and> n \<le> 90) \<or> (192 \<le> n \<and> n \<le> 222 \<and> n \<noteq> 215)
                      then char_of (n + 32) else c)"

definition lower :: "string \<Rightarrow> string" where
  "lower s = map lower_char s"

definition reserved :: "string list" where
  "reserved = [''__init__'', ''__main__'', ''setup'', ''test'', ''config'']"

definition validate_skill_name :: "string \<Rightarrow> py_exc option" where
  \<comment> \<open>\<open>_validate_skill_name\<close>: the exception raised, or \<open>None\<close> when the name passes\<close>
  "validate_skill_name name =
     (if name = [] then Some (ValueError ''Skill name cannot be empty'')
      else if \<not> str_isalnum (remove_char CHR ''-'' (remove_char CHR ''_'' name))
        then Some (ValueError (''Invalid skill name '' @ quote @ name @ quote @ ''. '' @
                               ''Use only letters, numbers, underscores, and hyphens.''))
      else if length name > 50 then Some (ValueError ''Skill name must be 50 characters or less'')
      else if lower name \<in> set reserved
        then Some (ValueError (''Skill name '' @ quote @ name @ quote @ '' is reserved''))
      else None)"

subsection \<open>Static analysis of the code of a skill\<close>

function walk_queue :: "ast list \<Rightarrow> ast list" where
  \<comment> \<open>the loop of \<open>ast.walk\<close>: pop the first node, append its children at the back, yield it\<close>
  "walk_queue [] = []"
| "walk_queue (Node k children # todo) = Node k children # walk_queue (todo @ children)"
  by pat_completeness auto
termination
  by (relation "measure (\<lambda>todo. sum_list (map size todo))")
     (auto simp: size_list_conv_sum_list)

definition ast_walk :: "ast \<Rightarrow> ast list" where
  "ast_walk tree = walk_queue [tree]"

fun function_def_name :: "ast \<Rightarrow> string option" where
  \<comment> \<open>\<open>node.name\<close> when \<open>isinstance(node, ast.FunctionDef)\<close>\<close>
  "function_def_name (Node (FunctionDef name) children) = Some name"
| "function_def_name (Node k children) = None"

text \<open>
  For comparison with what \<open>_validate_code\<close> collects: the function definitions anywhere in
  a tree, read off its structure, and the declarations at the top level of a module
  (functions, coroutines and classes are the callables a module can declare).
\<close>

fun function_defs_in :: "ast \<Rightarrow> string list" where
  "function_defs_in (Node k children) =
     (case k of FunctionDef name \<Rightarrow> [name] | _ \<Rightarrow> []) @ concat (map function_defs_in children)"

fun declared_name :: "ast \<Rightarrow> string option" where
  "declared_name (Node (FunctionDef name) children) = Some name"
| "declared_name (Node (AsyncFunctionDef name) children) = Some name"
| "declared_name (Node (ClassDef name) children) = Some name"
| "declared_name (Node k children) = None"

fun top_level_callables :: "ast \<Rightarrow> string list" where
  "top_level_callables (Node k body) = List.map_filter declared_name body"

fun top_level_functions :: "ast \<Rightarrow> string list" where
  "top_level_functions (Node k body) = List.map_filter function_def_name body"

text \<open>
  Breadth-first order, stated level by level: the nodes of a level from left to right, then
  the level made of their children, and so on until a level is empty.
\<close>

fun children :: "ast \<Rightarrow> ast list" where
  "children (Node k cs) = cs"

function level_order :: "ast list \<Rightarrow> ast list" where
  "level_order level =
     (if level = [] then [] else level @ level_order (concat (map children level)))"
  by pat_completeness auto
termination
proof (relation "measure (\<lambda>level. sum_list (map size level))")
  show "wf (measure (\<lambda>level. sum_list (map size level)))" by simp
next
  fix level :: "ast list"
  assume ne: "level \<noteq> []"
  have child: "sum_list (map size (children t)) < size t" for t :: ast
    by (cases t) (simp add: size_list_conv_sum_list)
  have "xs \<noteq> [] \<Longrightarrow>
        sum_list (map size (concat (map children xs))) < sum_list (map size xs)"
    for xs :: "ast list"
  proof (induction xs)
    case Nil
    then show ?case by simp
  next
    case (Cons t ts)
    show ?case
    proof (cases "ts = []")
      case True
      then show ?thesis using child [of t] by simp
    next
      case False
      then show ?thesis using Cons.IH child [of t] by simp
    qed
  qed
  then show "(concat (map children level), level) \<in> measure (\<lambda>level. sum_list (map size level))"
    using ne by simp
qed

declare level_order.simps [simp del]

record validation =
  v_valid :: bool
  v_functions :: "string list"
  v_error :: "string option"

definition invalid :: "string \<Rightarrow> validation" where
  "invalid msg = \<lparr>v_valid = False, v_functions = [], v_error = Some msg\<rparr>"

definition validate_code :: "runtime \<Rightarrow> string \<Rightarrow> py_exc + validation" where
  \<comment> \<open>\<open>_validate_code\<close>; an exception of \<open>ast.parse\<close> other than a syntax error propagates\<close>
  "validate_code rt code =
     (if code = [] \<or> strip code = [] then Inr (invalid ''Code cannot be empty'')
      else if length code > MAX_SKILL_SIZE
        then Inr (invalid (''Code too large ('' @ str_int (int (length code)) @
                           '' bytes). Maximum: '' @ str_int (int MAX_SKILL_SIZE)))
      else case rt_parse rt code of
        Inr tree \<Rightarrow>
          Inr \<lparr>v_valid = True,
               v_functions = List.map_filter function_def_name (ast_walk tree),
               v_error = None\<rparr>
      | Inl e \<Rightarrow>
          if isinstance e ''SyntaxError''
          then Inr (invalid (''Syntax error at line '' @ str_lineno (exc_lineno e) @ '': '' @
                             exc_msg e))
          else Inl e)"

subsection \<open>The skill store\<close>

text \<open>
  The directory \<open>SKILLS_DIR\<close> maps the name of a skill to its three files, each present or
  not. \<open>metadata.json\<close> holds the keys \<open>save_skill\<close> writes; the keys that \<open>get_skill\<close>
  reads with a default are optional. Failures of the file system are not modelled.
\<close>

record metadata =
  m_name :: string
  m_description :: string
  m_functions :: "string list"
  m_parameters :: "(string \<times> string) list option"
  m_returns :: "string option"
  m_version :: "string option"
  m_created :: "string option"
  m_updated :: "string option"

record skill_dir =
  implementation_py :: "string option"
  metadata_json :: "metadata option"
  SKILL_md :: "string option"

record world =
  skills :: "(string \<times> skill_dir) list"
  ticks :: nat

definition now :: "runtime \<Rightarrow> world \<Rightarrow> moment \<times> world" where
  \<comment> \<open>\<open>datetime.now()\<close>: the next reading of the clock\<close>
  "now rt w = (rt_clock rt (ticks w), w\<lparr>ticks := Suc (ticks w)\<rparr>)"

definition list_skills :: "world \<Rightarrow> string list" where
  "list_skills w =
     sort (filter (\<lambda>name. case map_of (skills w) name of
                             Some d \<Rightarrow> implementation_py d \<noteq> None
                           | None \<Rightarrow> False)
                  (remdups (map fst (skills w))))"

record skill_info =
  i_name :: string
  i_code :: string
  i_metadata :: metadata
  i_skill_md :: string
  i_description :: string
  i_functions :: "string list"
  i_parameters :: "(string \<times> string) list"
  i_version :: string

definition get_skill :: "world \<Rightarrow> string \<Rightarrow> py_exc + skill_info" where
  \<comment> \<open>the \<open>path\<close> entry of the result is left out\<close>
  "get_skill w name =
     (case validate_skill_name name of
        Some e \<Rightarrow> Inl e
      | None \<Rightarrow>
         (case map_of (skills w) name of
            None \<Rightarrow> Inl (FileNotFoundError (''Skill '' @ quote @ name @ quote @ '' not found''))
          | Some d \<Rightarrow>
             (let code = (case implementation_py d of Some c \<Rightarrow> c | None \<Rightarrow> []);
                  meta = (case metadata_json d of
                            Some m \<Rightarrow> m
                          | None \<Rightarrow> \<lparr>m_name = name, m_description = [], m_functions = [],
                                      m_parameters = None, m_returns = None, m_version = None,
                                      m_created = None, m_updated = None\<rparr>);
                  md = (case SKILL_md d of Some t \<Rightarrow> t | None \<Rightarrow> [])
              in Inr \<lparr>i_name = name, i_code = code, i_metadata = meta, i_skill_md = md,
                      i_description = m_description meta,
                      i_functions = m_functions meta,
                      i_parameters = (case m_parameters meta of Some p \<Rightarrow> p | None \<Rightarrow> []),
                      i_version = (case m_version meta of Some v \<Rightarrow> v | None \<Rightarrow> ''1.0.0'')\<rparr>)))"

definition params_text :: "(string \<times> string) list option \<Rightarrow> string" where
  "params_text parameters =
     (case parameters of
        None \<Rightarrow> ''None''
      | Some [] \<Rightarrow> ''None''
      | Some ps \<Rightarrow> join nl (map (\<lambda>(k, v). ''- '' @ backtick @ k @ backtick @ '': '' @ v) ps))"

definition params_example :: "(string \<times> string) list option \<Rightarrow> string" where
  "params_example parameters =
     (case parameters of
        None \<Rightarrow> []
      | Some [] \<Rightarrow> []
      | Some ps \<Rightarrow> '', '' @ join '', '' (map (\<lambda>(k, v). k @ ''='' @ dquote @ ''...'' @ dquote) ps))"

definition default_example :: "string \<Rightarrow> string" where
  "default_example name = ''result = skills.run_skill('' @ dquote @ name @ dquote @ '')''"

definition SKILL_MD_TEMPLATE ::
  "string \<Rightarrow> string \<Rightarrow> string \<Rightarrow> string \<Rightarrow> string \<Rightarrow> string \<Rightarrow> string \<Rightarrow> string \<Rightarrow> string" where
  \<comment> \<open>\<open>SKILL_MD_TEMPLATE.format(...)\<close>\<close>
  "SKILL_MD_TEMPLATE name description params_ex parameters returns example date version =
     ''# '' @ name @ nl @ nl @
     description @ nl @ nl @
     ''## Usage'' @ nl @ nl @
     backtick @ backtick @ backtick @ ''python'' @ nl @
     ''import skills'' @ nl @
     ''result = skills.run_skill('' @ dquote @ name @ dquote @ params_ex @ '')'' @ nl @
     backtick @ backtick @ backtick @ nl @ nl @
     ''## Parameters'' @ nl @ nl @
     parameters @ nl @ nl @
     ''## Returns'' @ nl @ nl @
     returns @ nl @ nl @
     ''## Example'' @ nl @ nl @
     backtick @ backtick @ backtick @ ''python'' @ nl @
     example @ nl @
     backtick @ backtick @ backtick @ nl @ nl @
     ''## Created'' @ nl @ nl @
     ''- **Date**: '' @ date @ nl @
     ''- **Version**: '' @ version @ nl"

record save_result =
  s_success :: bool
  s_name :: string
  s_functions :: "string list"
  s_message :: string

definition save_skill ::
  "runtime \<Rightarrow> world \<Rightarrow> string \<Rightarrow> string \<Rightarrow> string \<Rightarrow> (string \<times> string) list option \<Rightarrow>
   string \<Rightarrow> string \<Rightarrow> string \<Rightarrow> (py_exc + save_result) \<times> world" where
  \<comment> \<open>the \<open>path\<close> entry of the result is left out\<close>
  "save_skill rt w name code description parameters returns example version =
     (case validate_skill_name name of
        Some e \<Rightarrow> (Inl e, w)
      | None \<Rightarrow>
         (let existing = list_skills w in
          if length existing \<ge> MAX_SKILLS \<and> name \<notin> set existing
          then (Inl (ValueError (''Maximum number of skills ('' @ str_int (int MAX_SKILLS) @
                                 '') reached'')), w)
          else case validate_code rt code of
            Inl e \<Rightarrow> (Inl e, w)
          | Inr validation \<Rightarrow>
             if \<not> v_valid validation
             then (Inl (ValueError (''Invalid code: '' @
                          (case v_error validation of Some m \<Rightarrow> m | None \<Rightarrow> ''None''))), w)
             else if v_functions validation = []
             then (Inl (ValueError ''Code must define at least one function''), w)
             else
              (let (created, w1) = now rt w;
                   (updated, w2) = now rt w1;
                   (today, w3) = now rt w2;
                   meta = \<lparr>m_name = name, m_description = description,
                           m_functions = v_functions validation,
                           m_parameters = Some (case parameters of Some p \<Rightarrow> p | None \<Rightarrow> []),
                           m_returns = Some returns, m_version = Some version,
                           m_created = Some (iso created), m_updated = Some (iso updated)\<rparr>;
                   skill_md = SKILL_MD_TEMPLATE name description (params_example parameters)
                                (params_text parameters) returns
                                (if example \<noteq> [] then example else default_example name)
                                (ymd today) version;
                   d = \<lparr>implementation_py = Some code, metadata_json = Some meta,
                        SKILL_md = Some skill_md\<rparr>
               in (Inr \<lparr>s_success = True, s_name = name,
                        s_functions = v_functions validation,
                        s_message = ''Skill '' @ quote @ name @ quote @
                                    '' saved with functions: '' @
                                    join '', '' (v_functions validation)\<rparr>,
                   w3\<lparr>skills := AList.update name d (skills w3)\<rparr>))))"

definition run_skill_globals :: "runtime \<Rightarrow> namespace" where
  \<comment> \<open>\<open>exec_globals\<close> of \<open>run_skill\<close>: \<open>__builtins__\<close> is the module's own, unrestricted
      \<open>__builtins__\<close>\<close>
  "run_skill_globals rt =
     [(''__builtins__'', HostBuiltins), (''__name__'', Str ''__skill__'')] @ sandbox_tools rt"

definition run_skill ::
  "runtime \<Rightarrow> world \<Rightarrow> string \<Rightarrow> string option \<Rightarrow> (string \<times> pyval) list \<Rightarrow>
   pyval outcome \<times> event list" where
  "run_skill rt w name function kwargs =
     (case get_skill w name of
        Inl e \<Rightarrow> (Propagated e, [])
      | Inr skill_info \<Rightarrow>
         (let code = i_code skill_info; functions = i_functions skill_info in
          if functions = []
          then (Propagated (ValueError (''Skill '' @ quote @ name @ quote @
                                        '' has no functions defined'')), [])
          else
           (case (case function of
                    Some f \<Rightarrow>
                      if f \<noteq> [] then
                        (if f \<notin> set functions
                         then Inl (ValueError
                                (''Function '' @ quote @ f @ quote @ '' not found in skill '' @
                                 quote @ name @ quote @ ''. '' @
                                 ''Available: '' @ join '', '' functions))
                         else Inr f)
                      else Inr (hd functions)
                  | None \<Rightarrow> Inr (hd functions)) of
              Inl e \<Rightarrow> (Propagated e, [])
            | Inr target_function \<Rightarrow>
               (let exec_globals = run_skill_globals rt in
                case rt_exec_module rt exec_globals code of
                  Exec_raised e \<Rightarrow> (Propagated e, [Exec exec_globals code])
                | Exec_hangs \<Rightarrow> (NoReturn, [Exec exec_globals code])
                | Bound bound_globals \<Rightarrow>
                   (case map_of bound_globals target_function of
                      None \<Rightarrow>
                        (Propagated (ValueError
                            (''Function '' @ quote @ target_function @ quote @
                             '' not found after executing skill'')),
                         [Exec exec_globals code])
                    | Some func \<Rightarrow>
                       (case rt_call rt func kwargs of
                          Value v \<Rightarrow>
                            (Returned v, [Exec exec_globals code, Call func kwargs])
                        | Call_raised e \<Rightarrow>
                            (Propagated e, [Exec exec_globals code, Call func kwargs])
                        | Call_hangs \<Rightarrow>
                            (NoReturn, [Exec exec_globals code, Call func kwargs])))))))"

text \<open>
  \<open>int(s)\<close> for a \<open>str\<close> of code points below 256, in base 10. The whitespace it skips at
  both ends is that of \<open>bytes\<close> together with the two spaces above 127 (which the conversion
  first turns into blanks); a sign may follow, then digits, single underscores between
  them. The digits are scanned first: a run with more than 4300 of them is refused before
  the text after the run is looked at. The message of an invalid literal shows the first 200
  characters of \<open>repr(s)\<close>.
\<close>

definition isspace_int :: "char \<Rightarrow> bool" where
  "isspace_int c = (let n = (of_char c :: nat)
                    in (9 \<le> n \<and> n \<le> 13) \<or> n = 32 \<or> n = 133 \<or> n = 160)"

definition MAX_STR_DIGITS :: nat where
  \<comment> \<open>\<open>sys.get_int_max_str_digits()\<close>, by default\<close>
  "MAX_STR_DIGITS = 4300"

definition is_digit :: "char \<Rightarrow> bool" where
  "is_digit c = (c \<in> set ''0123456789'')"

definition valid_digits :: "string \<Rightarrow> bool" where
  \<comment> \<open>a run of digits and underscores that \<open>int()\<close> accepts: single underscores may
      separate the digits\<close>
  "valid_digits body =
     (body \<noteq> [] \<and> list_all (\<lambda>c. c \<in> set ''0123456789_'') body \<and>
      hd body \<noteq> CHR ''_'' \<and> last body \<noteq> CHR ''_'' \<and> \<not> sublist ''__'' body)"

definition digit_value :: "char \<Rightarrow> nat" where
  "digit_value c = of_char c - 48"

definition invalid_literal :: "string \<Rightarrow> py_exc" where
  "invalid_literal s =
     ValueError (''invalid literal for int() with base 10: '' @ take 200 (repr_str s))"

definition int_of_str :: "string \<Rightarrow> py_exc + int" where
  "int_of_str s =
     (let t = strip_with isspace_int s;
          (negative, body) = (case t of
                                 c # r \<Rightarrow> if c = CHR ''-'' then (True, r)
                                          else if c = CHR ''+'' then (False, r)
                                          else (False, t)
                               | [] \<Rightarrow> (False, t));
          digits = takeWhile (\<lambda>c. is_digit c \<or> c = CHR ''_'') body;
          rest = dropWhile (\<lambda>c. is_digit c \<or> c = CHR ''_'') body
      in if \<not> valid_digits digits then Inl (invalid_literal s)
         else if length (filter is_digit digits) > MAX_STR_DIGITS
           then Inl (ValueError
                  (''Exceeds the limit ('' @ str_int (int MAX_STR_DIGITS) @
                   '' digits) for integer string conversion: value has '' @
                   str_int (int (length (filter is_digit digits))) @
                   '' digits; use sys.set_int_max_str_digits() to increase the limit''))
         else if rest \<noteq> [] then Inl (invalid_literal s)
         else (let n = int (foldl (\<lambda>a c. 10 * a + digit_value c) 0
                              (remove_char CHR ''_'' digits))
               in Inr (if negative then - n else n)))"

definition str_of_int :: "int \<Rightarrow> py_exc + string" where
  \<comment> \<open>\<open>str(i)\<close>, which refuses to write more than 4300 digits\<close>
  "str_of_int i =
     (if length (str_nat (nat \<bar>i\<bar>)) > MAX_STR_DIGITS
      then Inl (ValueError
             (''Exceeds the limit ('' @ str_int (int MAX_STR_DIGITS) @
              '' digits) for integer string conversion; '' @
              ''use sys.set_int_max_str_digits() to increase the limit''))
      else Inr (str_int i))"

definition increment_version :: "string \<Rightarrow> py_exc + string" where
  \<comment> \<open>the three lines of \<open>update_skill\<close> under \<open># Increment version\<close>\<close>
  "increment_version old_version =
     (let parts = split_on CHR ''.'' old_version in
      case int_of_str (last parts) of
        Inl e \<Rightarrow> Inl e
      | Inr n \<Rightarrow>
          (case str_of_int (n + 1) of
             Inl e \<Rightarrow> Inl e
           | Inr t \<Rightarrow> Inr (join ''.'' (butlast parts @ [t]))))"

definition update_skill ::
  "runtime \<Rightarrow> world \<Rightarrow> string \<Rightarrow> string option \<Rightarrow> string option \<Rightarrow>
   (string \<times> string) list option \<Rightarrow> string option \<Rightarrow> string option \<Rightarrow>
   (py_exc + save_result) \<times> world" where
  "update_skill rt w name code description parameters returns example =
     (case get_skill w name of
        Inl e \<Rightarrow> (Inl e, w)
      | Inr existing \<Rightarrow>
         (let new_code = (case code of Some c \<Rightarrow> c | None \<Rightarrow> i_code existing);
              new_description =
                (case description of Some d \<Rightarrow> d | None \<Rightarrow> i_description existing);
              new_parameters =
                (case parameters of Some p \<Rightarrow> p | None \<Rightarrow> i_parameters existing);
              new_returns =
                (case returns of
                   Some r \<Rightarrow> r
                 | None \<Rightarrow> (case m_returns (i_metadata existing) of
                              Some r \<Rightarrow> r | None \<Rightarrow> []));
              new_example = (case example of Some x \<Rightarrow> x | None \<Rightarrow> [])
          in case increment_version (i_version existing) of
               Inl e \<Rightarrow> (Inl e, w)
             | Inr new_version \<Rightarrow>
                 save_skill rt w name new_code new_description (Some new_parameters)
                   new_returns new_example new_version))"

section \<open>A sample runtime\<close>

text \<open>
  What CPython does on the snippets used as concrete inputs below; on any other text the
  sample is arbitrary. \<open>signal.alarm\<close> takes a C \<open>int\<close> and hands it to \<open>alarm(unsigned)\<close>:
  zero arms nothing, a negative number wraps around.
\<close>

definition snippet_print :: string where
  "snippet_print = ''print(1+1)''"

definition snippet_import_socket :: string where
  "snippet_import_socket = ''import socket''"

definition snippet_loop :: string where
  "snippet_loop = ''while True: pass''"

definition snippet_import_caught :: string where
  "snippet_import_caught =
     ''try:'' @ nl @ ''    import socket'' @ nl @
     ''except Exception:'' @ nl @ ''    pass''"

definition snippet_catch_alarm :: string where
  "snippet_catch_alarm =
     ''try:'' @ nl @ ''    while True:'' @ nl @ ''        x = 1'' @ nl @
     ''except Exception:'' @ nl @
     ''    print('' @ quote @ ''late'' @ quote @ '')''"

definition snippet_raise_timeout :: string where
  "snippet_raise_timeout =
     ''import json'' @ nl @
     ''raise json.__builtins__['' @ quote @ ''TimeoutError'' @ quote @ ''](''  @ quote @
     ''Code execution timed out after 5 seconds'' @ quote @ '')''"

definition skill_code_fg :: string where
  "skill_code_fg =
     ''def f():'' @ nl @ ''    return '' @ quote @ ''f'' @ quote @ nl @
     ''def g():'' @ nl @ ''    return '' @ quote @ ''g'' @ quote @ nl"

definition skill_code_nested :: string where
  "skill_code_nested =
     ''def f():'' @ nl @ ''    def g():'' @ nl @ ''        pass'' @ nl @ ''    return g'' @ nl"

definition skill_code_import :: string where
  "skill_code_import =
     ''import socket'' @ nl @ ''def f():'' @ nl @ ''    return '' @ quote @ ''f'' @ quote @ nl"

definition skill_code_no_def :: string where
  "skill_code_no_def = ''x = 1''"

definition skill_code_async :: string where
  "skill_code_async =
     ''async def f():'' @ nl @ ''    return '' @ quote @ ''f'' @ quote @ nl @
     ''def g():'' @ nl @ ''    return '' @ quote @ ''g'' @ quote @ nl"

definition sample_alarm :: "int \<Rightarrow> py_exc + nat option" where
  "sample_alarm seconds =
     (if seconds < - 2147483648 \<or> 2147483647 < seconds
      then Inl (raise_exc ''OverflowError'' [''ArithmeticError'', ''Exception'', ''BaseException'']
                  ''Python int too large to convert to C int'')
      else if seconds mod 4294967296 = 0 then Inr None
      else Inr (Some (nat (seconds mod 4294967296))))"

definition sample_real_import :: "string \<Rightarrow> py_exc + pyobj" where
  "sample_real_import name = Inr (Module (base_module name))"

definition sample_import :: "namespace \<Rightarrow> string \<Rightarrow> py_exc + pyobj" where
  "sample_import exec_globals name = import_statement sample_real_import exec_globals name"

definition sample_exec :: "namespace \<Rightarrow> string \<Rightarrow> run" where
  "sample_exec exec_globals src =
     (if src = snippet_print then \<lparr>emitted = ''2'' @ nl, ending = Completed\<rparr>
      else if src = snippet_import_socket
        then \<lparr>emitted = [],
              ending = (case sample_import exec_globals ''socket'' of
                          Inl e \<Rightarrow> Raised e
                        | Inr m \<Rightarrow> Completed)\<rparr>
      else if src = snippet_raise_timeout
        then \<lparr>emitted = [],
              ending = Raised (TimeoutError ''Code execution timed out after 5 seconds'')\<rparr>
      else if src = snippet_loop then \<lparr>emitted = [], ending = Hangs\<rparr>
      else if src = snippet_import_caught
        then \<lparr>emitted = [],
              ending = (case sample_import exec_globals ''socket'' of
                          Inl e \<Rightarrow> if isinstance e ''Exception'' then Completed else Raised e
                        | Inr m \<Rightarrow> Completed)\<rparr>
      else if src = snippet_catch_alarm then \<lparr>emitted = [], ending = Hangs\<rparr>
      else \<lparr>emitted = [], ending = Completed\<rparr>)"

definition sample_exec_bounded :: "namespace \<Rightarrow> string \<Rightarrow> nat \<Rightarrow> governed" where
  \<comment> \<open>under an alarm the endless loop is interrupted; the loop inside \<open>try\<close> catches the
      exception of the handler, prints and completes\<close>
  "sample_exec_bounded exec_globals src n =
     (if src = snippet_loop then Expired []
      else if src = snippet_catch_alarm
        then Finished \<lparr>emitted = ''late'' @ nl, ending = Completed\<rparr>
      else Finished (sample_exec exec_globals src))"

definition leaf :: ast where
  "leaf = Node Other_node []"

definition sample_parse :: "string \<Rightarrow> py_exc + ast" where
  "sample_parse code =
     (if code = skill_code_fg
      then Inr (Node Module_node
                  [Node (FunctionDef ''f'') [leaf, Node Other_node [leaf]],
                   Node (FunctionDef ''g'') [leaf, Node Other_node [leaf]]])
      else if code = skill_code_nested
      then Inr (Node Module_node
                  [Node (FunctionDef ''f'')
                     [leaf, Node (FunctionDef ''g'') [leaf, leaf],
                      Node Other_node [Node Other_node [leaf]]]])
      else if code = skill_code_import
      then Inr (Node Module_node
                  [Node Other_node [leaf],
                   Node (FunctionDef ''f'') [leaf, Node Other_node [leaf]]])
      else if code = skill_code_no_def
      then Inr (Node Module_node [Node Other_node [Node Other_node [leaf], leaf]])
      else if code = skill_code_async
      then Inr (Node Module_node
                  [Node (AsyncFunctionDef ''f'') [leaf, Node Other_node [leaf]],
                   Node (FunctionDef ''g'') [leaf, Node Other_node [leaf]]])
      else Inr (Node Module_node []))"

definition sample_exec_module :: "namespace \<Rightarrow> string \<Rightarrow> module_run" where
  \<comment> \<open>running the module binds each function, coroutine and class declared at top level; the
      one sample with an \<open>import\<close> statement imports first\<close>
  "sample_exec_module exec_globals code =
     (case sample_parse code of
        Inl e \<Rightarrow> Exec_raised e
      | Inr (Node k body) \<Rightarrow>
          (let bind_functions = fold (\<lambda>name. AList.update name (Function name))
                                     (List.map_filter declared_name body)
           in if code = skill_code_import
              then (case sample_import exec_globals ''socket'' of
                      Inl e \<Rightarrow> Exec_raised e
                    | Inr m \<Rightarrow> Bound (bind_functions (AList.update ''socket'' m exec_globals)))
              else Bound (bind_functions exec_globals)))"

definition sample_call :: "pyobj \<Rightarrow> (string \<times> pyval) list \<Rightarrow> call_run" where
  "sample_call func kwargs =
     (case func of
        Function name \<Rightarrow> Value (PyStr name)
      | _ \<Rightarrow> Call_raised (raise_exc ''TypeError'' [''Exception'', ''BaseException'']
                             ''object is not callable''))"

definition sample_clock :: "nat \<Rightarrow> moment" where
  "sample_clock n =
     \<lparr>iso = ''2024-01-15T10:00:00.'' @ str_int (100000 + int n), ymd = ''2024-01-15''\<rparr>"

definition sample_runtime :: runtime where
  "sample_runtime =
     \<lparr>rt_alarm = sample_alarm,
      rt_exec_unbounded = sample_exec,
      rt_exec_bounded = sample_exec_bounded,
      rt_import = sample_real_import,
      rt_tools = True,
      rt_exec_module = sample_exec_module,
      rt_call = sample_call,
      rt_parse = sample_parse,
      rt_clock = sample_clock\<rparr>"

text \<open>
  The stores used as concrete inputs: the empty store, the store after one skill with the
  functions \<open>f\<close> and \<open>g\<close> was saved with an example, the store after a skill that imports
  \<open>socket\<close> was saved, the store after a skill that declares a coroutine \<open>f\<close> and a function
  \<open>g\<close> was saved, and the directory that holds the first of them after a save at clock
  reading \<open>t\<close>.
\<close>

definition empty_world :: world where
  "empty_world = \<lparr>skills = [], ticks = 0\<rparr>"

definition world_fg :: world where
  "world_fg = snd (save_skill sample_runtime empty_world ''fg'' skill_code_fg ''first''
                     None ''a letter'' ''x = f()'' ''1.0.0'')"

definition world_net :: world where
  "world_net = snd (save_skill sample_runtime empty_world ''net'' skill_code_import
                      ''imports a module'' None ''a letter'' [] ''1.0.0'')"

definition world_async :: world where
  "world_async = snd (save_skill sample_runtime empty_world ''co'' skill_code_async
                        ''a coroutine first'' None ''a letter'' [] ''1.0.0'')"

definition dir_fg :: "string \<Rightarrow> string \<Rightarrow> string \<Rightarrow> nat \<Rightarrow> skill_dir" where
  "dir_fg description example version t =
     \<lparr>implementation_py = Some skill_code_fg,
      metadata_json = Some
        \<lparr>m_name = ''fg'', m_description = description, m_functions = [''f'', ''g''],
         m_parameters = Some [], m_returns = Some ''a letter'', m_version = Some version,
         m_created = Some (iso (sample_clock t)),
         m_updated = Some (iso (sample_clock (Suc t)))\<rparr>,
      SKILL_md = Some
        (SKILL_MD_TEMPLATE ''fg'' description [] ''None'' ''a letter'' example
           ''2024-01-15'' version)\<rparr>"

section \<open>Evaluation and auxiliary facts\<close>

lemmas sample_defs =
  sample_runtime_def sample_alarm_def sample_exec_def sample_exec_bounded_def
  sample_import_def import_statement_def sample_real_import_def
  snippet_print_def snippet_import_socket_def snippet_loop_def snippet_raise_timeout_def
  snippet_import_caught_def snippet_catch_alarm_def
  nl_def quote_def dquote_def backtick_def

lemmas engine_defs =
  execute_code_def strip_def strip_with_def isspace_def attempt_def finish_def
  cap_output_def slice_to_def truncation_marker_def str_int_def str_nat.simps digit_char_def
  create_execution_globals_def sandbox_tools_def

lemma strip_Nil [simp]: "strip [] = []"
  by (simp add: strip_def strip_with_def)

lemma digit_char_not_colon: "k < 10 \<Longrightarrow> digit_char k \<noteq> CHR '':''"
proof -
  assume "k < 10"
  then have "k \<in> {0, 1, 2, 3, 4, 5, 6, 7, 8, 9}" by auto
  then show "digit_char k \<noteq> CHR '':''" by (auto simp: digit_char_def)
qed

lemma colon_str_nat: "CHR '':'' \<notin> set (str_nat n)"
proof (induction n rule: str_nat.induct)
  case (1 n)
  show ?case
  proof (cases "n < 10")
    case True
    then show ?thesis
      using digit_char_not_colon [OF True] by (subst str_nat.simps) auto
  next
    case False
    then have "CHR '':'' \<notin> set (str_nat (n div 10))" using 1 by simp
    moreover have "digit_char (n mod 10) \<noteq> CHR '':''"
      using digit_char_not_colon by simp
    ultimately show ?thesis using False by (subst str_nat.simps) auto
  qed
qed

lemma colon_timeout_message: "CHR '':'' \<notin> set (timeout_message t)"
  by (simp add: timeout_message_def str_int_def colon_str_nat)

section \<open>The execution engine\<close>

text \<open>
  C2. The claim: for every value passed as \<open>code\<close>, \<open>execute_code\<close> returns an envelope and
  no exception escapes. The code tests \<open>not code.strip()\<close> before \<open>isinstance(code, str)\<close>:
  for the integer 5 the call \<open>code.strip()\<close> raises \<open>AttributeError\<close>, outside any \<open>try\<close>,
  and the exception leaves \<open>execute_code\<close>, whatever the runtime, timeout and cap.
\<close>

theorem execute_code_non_string_escapes:
  "execute_code rt (PyInt 5) timeout max_output =
     (Propagated (AttributeError (quote @ ''int'' @ quote @ '' object has no attribute '' @
                                  quote @ ''strip'' @ quote)), [])"
  by (simp add: execute_code_def)

text \<open>
  C3. The claim: a request with \<open>timeout \<le> 0\<close>, \<open>max_output \<le> 0\<close> or an empty snippet fails
  validation before anything runs. The code validates the snippet only: with timeout 0
  (no alarm is armed), with timeout -1 and with cap 0 the snippet \<open>print(1+1)\<close> is
  executed and the call succeeds.
\<close>

theorem nonpositive_bounds_still_execute:
  "execute_code sample_runtime (PyStr snippet_print) 0 100 =
     (Returned \<lparr>success = True, output_text = ''2'' @ nl, error = [], truncated = False\<rparr>,
      [Exec (create_execution_globals sample_runtime) snippet_print]) \<and>
   execute_code sample_runtime (PyStr snippet_print) (- 1) 100 =
     (Returned \<lparr>success = True, output_text = ''2'' @ nl, error = [], truncated = False\<rparr>,
      [Exec (create_execution_globals sample_runtime) snippet_print]) \<and>
   execute_code sample_runtime (PyStr snippet_print) 5 0 =
     (Returned \<lparr>success = True,
                output_text = nl @ ''... [OUTPUT TRUNCATED - exceeded 0 chars]'',
                error = [], truncated = True\<rparr>,
      [Exec (create_execution_globals sample_runtime) snippet_print])"
  by (simp add: engine_defs sample_defs)

text \<open>
  C3, as the code has it: a snippet that is empty or consists of whitespace only is
  rejected with \<open>No code provided\<close> and nothing is executed, whatever the timeout and the
  cap are. Neither bound is validated: a snippet that is not blank is handed to \<open>exec\<close>
  exactly once whenever \<open>signal.alarm\<close> accepts the timeout, whatever the sign of the
  timeout and of the cap; when \<open>signal.alarm\<close> raises (a timeout outside the range of a C
  \<open>int\<close>) the snippet is not executed and the exception goes to the \<open>except\<close> clauses, with
  no output captured.
\<close>

theorem only_snippet_validated:
  "(strip src = [] \<longrightarrow>
      execute_code rt (PyStr src) timeout max_output =
        (Returned (rejected ''No code provided''), [])) \<and>
   (strip src \<noteq> [] \<and> rt_alarm rt timeout = Inr a \<longrightarrow>
      snd (execute_code rt (PyStr src) timeout max_output) =
        [Exec (create_execution_globals rt) src]) \<and>
   (strip src \<noteq> [] \<and> rt_alarm rt timeout = Inl e \<longrightarrow>
      execute_code rt (PyStr src) timeout max_output = (finish (Raised e) [] max_output, []))"
proof (intro conjI impI)
  assume "strip src = []"
  then show "execute_code rt (PyStr src) timeout max_output =
        (Returned (rejected ''No code provided''), [])"
    by (simp add: execute_code_def)
next
  assume h: "strip src \<noteq> [] \<and> rt_alarm rt timeout = Inr a"
  then have ne: "src \<noteq> []" by auto
  show "snd (execute_code rt (PyStr src) timeout max_output) =
        [Exec (create_execution_globals rt) src]"
  proof (cases a)
    case None
    then show ?thesis using h ne by (simp add: execute_code_def attempt_def Let_def)
  next
    case (Some n)
    then show ?thesis using h ne
      by (cases "rt_exec_bounded rt (create_execution_globals rt) src n")
         (simp_all add: execute_code_def attempt_def Let_def)
  qed
next
  assume h: "strip src \<noteq> [] \<and> rt_alarm rt timeout = Inl e"
  then have ne: "src \<noteq> []" by auto
  show "execute_code rt (PyStr src) timeout max_output = (finish (Raised e) [] max_output, [])"
    using h ne by (simp add: execute_code_def attempt_def Let_def)
qed

theorem only_snippet_validated_witness:
  "execute_code sample_runtime (PyStr ('' '' @ nl)) 0 0 =
     (Returned \<lparr>success = False, output_text = [], error = ''No code provided'',
                truncated = False\<rparr>, []) \<and>
   snd (execute_code sample_runtime (PyStr snippet_print) (- 1) 0) =
     [Exec (create_execution_globals sample_runtime) snippet_print] \<and>
   execute_code sample_runtime (PyStr snippet_print) (- 2147483649) 100 =
     (Returned \<lparr>success = False, output_text = [],
                error = ''OverflowError: Python int too large to convert to C int'',
                truncated = False\<rparr>, [])"
proof -
  have h1: "strip ('' '' @ nl) = []"
    by (simp add: strip_def strip_with_def isspace_def nl_def)
  have h2: "strip snippet_print \<noteq> []"
    by (simp add: strip_def strip_with_def isspace_def snippet_print_def)
  have a2: "rt_alarm sample_runtime (- 1) = Inr (Some 4294967295)"
    by (simp add: sample_runtime_def sample_alarm_def)
  have a3: "rt_alarm sample_runtime (- 2147483649) =
              Inl (raise_exc ''OverflowError'' [''ArithmeticError'', ''Exception'', ''BaseException'']
                     ''Python int too large to convert to C int'')"
    by (simp add: sample_runtime_def sample_alarm_def)
  have f: "finish (Raised (raise_exc ''OverflowError''
                     [''ArithmeticError'', ''Exception'', ''BaseException'']
                     ''Python int too large to convert to C int'')) [] 100 =
           Returned \<lparr>success = False, output_text = [],
                error = ''OverflowError: Python int too large to convert to C int'',
                truncated = False\<rparr>"
    by (simp add: finish_def cap_output_def except_clauses_def isinstance_def raise_exc_def)
  show ?thesis
    using h1 h2 a2 a3 f
      only_snippet_validated [where src = "'' '' @ nl" and rt = sample_runtime and timeout = 0
        and max_output = 0]
      only_snippet_validated [where src = snippet_print and rt = sample_runtime
        and timeout = "- 1" and max_output = 0 and a = "Some 4294967295"]
      only_snippet_validated [where src = snippet_print and rt = sample_runtime
        and timeout = "- 2147483649" and max_output = 100
        and e = "raise_exc ''OverflowError'' [''ArithmeticError'', ''Exception'', ''BaseException'']
                     ''Python int too large to convert to C int''"]
    by (simp add: rejected_def)
qed

text \<open>
  C5. The claim: output longer than \<open>max_output\<close> is cut to exactly \<open>max_output\<close>
  characters followed by a marker that does not depend on the input. The marker embeds
  \<open>max_output\<close>: the same snippet under the caps 1 and 0 ends in two different markers.
  With the cap -1 the slice \<open>output[:-1]\<close> keeps one character of the two.
\<close>

theorem truncation_marker_varies:
  "execute_code sample_runtime (PyStr snippet_print) 5 1 =
     (Returned \<lparr>success = True,
                output_text = ''2'' @ nl @ ''... [OUTPUT TRUNCATED - exceeded 1 chars]'',
                error = [], truncated = True\<rparr>,
      [Exec (create_execution_globals sample_runtime) snippet_print]) \<and>
   execute_code sample_runtime (PyStr snippet_print) 5 0 =
     (Returned \<lparr>success = True,
                output_text = nl @ ''... [OUTPUT TRUNCATED - exceeded 0 chars]'',
                error = [], truncated = True\<rparr>,
      [Exec (create_execution_globals sample_runtime) snippet_print]) \<and>
   execute_code sample_runtime (PyStr snippet_print) 5 (- 1) =
     (Returned \<lparr>success = True,
                output_text = ''2'' @ nl @ ''... [OUTPUT TRUNCATED - exceeded -1 chars]'',
                error = [], truncated = True\<rparr>,
      [Exec (create_execution_globals sample_runtime) snippet_print])"
  by (simp add: engine_defs sample_defs)

text \<open>
  C5, as the code has it: for a cap \<open>max_output \<ge> 0\<close> and every run that returns an
  envelope, captured text longer than the cap is cut to its first \<open>max_output\<close> characters
  followed by \<open>truncation_marker max_output\<close> (a text that depends on the cap and on nothing
  else) with \<open>truncated\<close> set; captured text within the cap is returned unchanged with
  \<open>truncated\<close> unset.
\<close>

theorem output_capped:
  assumes "strip src \<noteq> []"
      and "attempt rt src timeout = ((en, captured), tr)"
      and "execute_code rt (PyStr src) timeout max_output = (Returned env, tr')"
      and "0 \<le> max_output"
  shows "if int (length captured) > max_output
         then output_text env = take (nat max_output) captured @ truncation_marker max_output \<and>
              length (take (nat max_output) captured) = nat max_output \<and> truncated env
         else output_text env = captured \<and> \<not> truncated env"
  using assms
  by (auto simp: execute_code_def finish_def cap_output_def slice_to_def
           split: ending.splits option.splits if_splits)

theorem output_capped_witness:
  "strip snippet_print \<noteq> [] \<and>
   attempt sample_runtime snippet_print 5 =
     ((Completed, ''2'' @ nl), [Exec (create_execution_globals sample_runtime) snippet_print]) \<and>
   execute_code sample_runtime (PyStr snippet_print) 5 1 =
     (Returned \<lparr>success = True,
                output_text = ''2'' @ nl @ ''... [OUTPUT TRUNCATED - exceeded 1 chars]'',
                error = [], truncated = True\<rparr>,
      [Exec (create_execution_globals sample_runtime) snippet_print]) \<and>
   (0::int) \<le> 1 \<and>
   ''2'' @ nl @ ''... [OUTPUT TRUNCATED - exceeded 1 chars]'' =
     take (nat 1) (''2'' @ nl) @ truncation_marker 1"
proof -
  have h1: "strip snippet_print \<noteq> []"
    by (simp add: strip_def strip_with_def isspace_def snippet_print_def)
  have h2: "attempt sample_runtime snippet_print 5 =
     ((Completed, ''2'' @ nl), [Exec (create_execution_globals sample_runtime) snippet_print])"
    by (simp add: engine_defs sample_defs)
  have h3: "execute_code sample_runtime (PyStr snippet_print) 5 1 =
     (Returned \<lparr>success = True,
                output_text = ''2'' @ nl @ ''... [OUTPUT TRUNCATED - exceeded 1 chars]'',
                error = [], truncated = True\<rparr>,
      [Exec (create_execution_globals sample_runtime) snippet_print])"
    by (simp add: engine_defs sample_defs)
  have h4: "(0::int) \<le> 1" by simp
  show ?thesis
    using h1 h2 h3 h4 output_capped [OF h1 h2 h3 h4]
    by (simp add: nl_def)
qed

text \<open>
  C6. The claim: a run that exceeds the timeout is classified as the Timeout outcome, and
  that outcome is never produced for an error raised by the snippet. The
  \<open>except TimeoutError\<close> clause reports any instance of that class by its text alone: a
  snippet that raises \<open>TimeoutError\<close> itself, reaching the class through the \<open>__builtins__\<close>
  of an allowed module, gets the same envelope as a snippet that loops until the alarm
  fires. The alarm interrupts by raising inside the snippet: a snippet that loops inside
  \<open>try\<close> and catches \<open>Exception\<close> outlives the timeout and is reported as a success. With
  the timeout 0 no alarm is armed and the endless loop never returns.
\<close>

theorem snippet_timeout_error_indistinguishable:
  "execute_code sample_runtime (PyStr snippet_raise_timeout) 5 100 =
     (Returned \<lparr>success = False, output_text = [],
                error = ''Code execution timed out after 5 seconds'', truncated = False\<rparr>,
      [Exec (create_execution_globals sample_runtime) snippet_raise_timeout]) \<and>
   execute_code sample_runtime (PyStr snippet_loop) 5 100 =
     (Returned \<lparr>success = False, output_text = [],
                error = ''Code execution timed out after 5 seconds'', truncated = False\<rparr>,
      [Exec (create_execution_globals sample_runtime) snippet_loop]) \<and>
   execute_code sample_runtime (PyStr snippet_catch_alarm) 5 100 =
     (Returned \<lparr>success = True, output_text = ''late'' @ nl, error = [], truncated = False\<rparr>,
      [Exec (create_execution_globals sample_runtime) snippet_catch_alarm]) \<and>
   execute_code sample_runtime (PyStr snippet_loop) 0 100 =
     (NoReturn, [Exec (create_execution_globals sample_runtime) snippet_loop])"
  by (simp add: engine_defs sample_defs except_clauses_def isinstance_def TimeoutError_def
                raise_exc_def signal_handler_def timeout_message_def)

text \<open>
  C6, as the code has it: when \<open>signal.alarm\<close> arms an alarm for the timeout, the alarm
  fires and the \<open>TimeoutError\<close> raised by its handler leaves the snippet uncaught, the
  snippet has been handed to \<open>exec\<close> once and the envelope has \<open>success\<close> unset, the error
  text \<open>Code execution timed out after N seconds\<close> for the timeout \<open>N\<close>, and the text captured
  before the interruption (cut to the cap, with the marker and the flag of the cap). When
  the attempt ends with an exception that is not an instance of \<open>TimeoutError\<close> and an
  envelope is returned, its error text is \<open>Code execution timed out after t seconds\<close> for
  no \<open>t\<close>.
\<close>

theorem timeout_outcome:
  "(strip src \<noteq> [] \<and> rt_alarm rt timeout = Inr (Some n) \<and>
    rt_exec_bounded rt (create_execution_globals rt) src n = Expired out \<longrightarrow>
      execute_code rt (PyStr src) timeout max_output =
        (Returned \<lparr>success = False, output_text = fst (cap_output out max_output),
                   error = timeout_message timeout,
                   truncated = snd (cap_output out max_output)\<rparr>,
         [Exec (create_execution_globals rt) src])) \<and>
   (strip src \<noteq> [] \<and> attempt rt src timeout = ((Raised e, captured), tr) \<and>
    \<not> isinstance e ''TimeoutError'' \<and>
    execute_code rt (PyStr src) timeout max_output = (Returned env, tr') \<longrightarrow>
      error env \<noteq> timeout_message t)"
proof (intro conjI impI)
  assume a: "strip src \<noteq> [] \<and> rt_alarm rt timeout = Inr (Some n) \<and>
    rt_exec_bounded rt (create_execution_globals rt) src n = Expired out"
  then have "src \<noteq> []" by auto
  with a show "execute_code rt (PyStr src) timeout max_output =
        (Returned \<lparr>success = False, output_text = fst (cap_output out max_output),
                   error = timeout_message timeout,
                   truncated = snd (cap_output out max_output)\<rparr>,
         [Exec (create_execution_globals rt) src])"
    by (simp add: execute_code_def attempt_def finish_def signal_handler_def TimeoutError_def
        raise_exc_def except_clauses_def isinstance_def split: prod.splits)
next
  assume a: "strip src \<noteq> [] \<and> attempt rt src timeout = ((Raised e, captured), tr) \<and>
    \<not> isinstance e ''TimeoutError'' \<and>
    execute_code rt (PyStr src) timeout max_output = (Returned env, tr')"
  then have ne: "src \<noteq> []" by auto
  have "finish (Raised e) captured max_output = Returned env"
    using a ne by (auto simp: execute_code_def)
  with a have "CHR '':'' \<in> set (error env)"
    by (auto simp: finish_def except_clauses_def split: prod.splits if_splits)
  then show "error env \<noteq> timeout_message t"
    using colon_timeout_message by metis
qed

theorem timeout_outcome_witness:
  "execute_code sample_runtime (PyStr snippet_loop) 5 3 =
        (Returned \<lparr>success = False, output_text = [],
                   error = ''Code execution timed out after 5 seconds'',
                   truncated = False\<rparr>,
         [Exec (create_execution_globals sample_runtime) snippet_loop]) \<and>
   ''Import error: '' @ import_rejected ALLOWED_IMPORTS ''socket'' \<noteq> timeout_message 5"
proof -
  have a1: "strip snippet_loop \<noteq> [] \<and> rt_alarm sample_runtime 5 = Inr (Some 5) \<and>
    rt_exec_bounded sample_runtime (create_execution_globals sample_runtime) snippet_loop 5 = Expired []"
    by (simp add: engine_defs sample_defs)
  have a2: "strip snippet_import_socket \<noteq> [] \<and>
     attempt sample_runtime snippet_import_socket 5 =
       ((Raised (ImportError (import_rejected ALLOWED_IMPORTS ''socket'')), []),
        [Exec (create_execution_globals sample_runtime) snippet_import_socket]) \<and>
    \<not> isinstance (ImportError (import_rejected ALLOWED_IMPORTS ''socket'')) ''TimeoutError'' \<and>
    execute_code sample_runtime (PyStr snippet_import_socket) 5 3 =
      (Returned \<lparr>success = False, output_text = [],
                 error = ''Import error: '' @ import_rejected ALLOWED_IMPORTS ''socket'',
                 truncated = False\<rparr>,
       [Exec (create_execution_globals sample_runtime) snippet_import_socket])"
    by (simp add: engine_defs sample_defs safe_builtins_def create_safe_import_def base_module_def
         ALLOWED_IMPORTS_def RESTRICTED_BUILTINS_def isinstance_def ImportError_def raise_exc_def except_clauses_def)
  show ?thesis
    using a1 a2 timeout_outcome [of snippet_loop sample_runtime 5 5 "[]" 3]
      timeout_outcome [of snippet_import_socket sample_runtime 5 _ _ 3 "ImportError (import_rejected ALLOWED_IMPORTS ''socket'')" "[]"
         "[Exec (create_execution_globals sample_runtime) snippet_import_socket]"
         "\<lparr>success = False, output_text = [],
                 error = ''Import error: '' @ import_rejected ALLOWED_IMPORTS ''socket'',
                 truncated = False\<rparr>" "[Exec (create_execution_globals sample_runtime) snippet_import_socket]" 5]
    by (simp add: cap_output_def timeout_message_def str_int_def str_nat.simps digit_char_def)
qed

section \<open>The import gate\<close>

lemma split_on_not_Nil [simp]: "split_on sep s \<noteq> []"
  by (induction s) (auto split: list.splits)







lemma gate_installed:
  "import_statement real_import (create_execution_globals rt) name =
   create_safe_import real_import ALLOWED_IMPORTS name"
  by (simp add: import_statement_def create_execution_globals_def safe_builtins_def
                RESTRICTED_BUILTINS_def)

lemma sample_fields:
  "rt_alarm sample_runtime = sample_alarm"
  "rt_exec_unbounded sample_runtime = sample_exec"
  "rt_exec_bounded sample_runtime = sample_exec_bounded"
  "rt_import sample_runtime = sample_real_import"
  "rt_tools sample_runtime = True"
  "rt_exec_module sample_runtime = sample_exec_module"
  "rt_call sample_runtime = sample_call"
  "rt_parse sample_runtime = sample_parse"
  "rt_clock sample_runtime = sample_clock"
  by (simp_all add: sample_runtime_def)

lemma socket_rejected: "base_module ''socket'' \<notin> set ALLOWED_IMPORTS"
  by (simp add: base_module_def ALLOWED_IMPORTS_def)

lemma base_module_socket: "base_module ''socket'' = ''socket''"
  by (simp add: base_module_def)

lemma sample_gate:
  "sample_import (create_execution_globals sample_runtime) name =
   create_safe_import sample_real_import ALLOWED_IMPORTS name"
  by (simp add: sample_import_def gate_installed)

lemma sample_host_import:
  "sample_import (run_skill_globals sample_runtime) name = sample_real_import name"
  by (simp add: sample_import_def import_statement_def run_skill_globals_def)







section \<open>Functions of a skill\<close>

lemma walk_queue_append:
  "walk_queue (xs @ ys) = xs @ walk_queue (ys @ concat (map children xs))"
proof (induction xs arbitrary: ys)
  case Nil
  then show ?case by simp
next
  case (Cons t xs)
  obtain k cs where t: "t = Node k cs" by (cases t)
  have "walk_queue ((t # xs) @ ys) = t # walk_queue (xs @ (ys @ cs))"
    by (simp add: t)
  also have "\<dots> = t # xs @ walk_queue ((ys @ cs) @ concat (map children xs))"
    using Cons.IH [of "ys @ cs"] by simp
  finally show ?case by (simp add: t)
qed

lemma ast_walk_levels:
  "ast_walk (Node k body) = Node k body # body @ walk_queue (concat (map children body))"
  using walk_queue_append [of body "[]"] by (simp add: ast_walk_def)

lemma names_walk_queue:
  "mset (List.map_filter function_def_name (walk_queue q)) =
   sum_list (map (\<lambda>t. mset (function_defs_in t)) q)"
proof (induction q rule: walk_queue.induct)
  case 1
  then show ?case by (simp add: List.map_filter_simps)
next
  case (2 k cs todo)
  have own: "mset (List.map_filter function_def_name [Node k cs]) =
             mset (case k of FunctionDef name \<Rightarrow> [name] | _ \<Rightarrow> [])"
    by (cases k) (simp_all add: List.map_filter_simps)
  have "mset (List.map_filter function_def_name (walk_queue (Node k cs # todo))) =
        mset (List.map_filter function_def_name [Node k cs]) +
        mset (List.map_filter function_def_name (walk_queue (todo @ cs)))"
    by (cases k) (simp_all add: List.map_filter_simps)
  also have "\<dots> = mset (case k of FunctionDef name \<Rightarrow> [name] | _ \<Rightarrow> []) +
        (sum_list (map (\<lambda>t. mset (function_defs_in t)) todo) +
         sum_list (map (\<lambda>t. mset (function_defs_in t)) cs))"
    using 2 own by simp
  also have "\<dots> = sum_list (map (\<lambda>t. mset (function_defs_in t)) (Node k cs # todo))"
    by (simp add: mset_concat comp_def)
  finally show ?case .
qed

lemma names_ast_walk:
  "mset (List.map_filter function_def_name (ast_walk tree)) = mset (function_defs_in tree)"
  using names_walk_queue [of "[tree]"] by (simp add: ast_walk_def)

lemma map_filter_append:
  "List.map_filter f (xs @ ys) = List.map_filter f xs @ List.map_filter f ys"
  by (simp add: List.map_filter_def)

lemma names_top_level_first:
  "List.map_filter function_def_name (ast_walk (Node Module_node body)) =
   top_level_functions (Node Module_node body) @
   List.map_filter function_def_name (walk_queue (concat (map children body)))"
  by (simp add: ast_walk_levels map_filter_append List.map_filter_simps)


lemma save_functions:
  assumes "validate_skill_name name = None"
      and "length (list_skills w) < MAX_SKILLS \<or> name \<in> set (list_skills w)"
      and "validate_code rt code = Inr \<lparr>v_valid = True, v_functions = fs, v_error = None\<rparr>"
  shows "(fs = [] \<longrightarrow>
            save_skill rt w name code description parameters returns example version =
              (Inl (ValueError ''Code must define at least one function''), w)) \<and>
         (fs \<noteq> [] \<longrightarrow>
            (\<exists>res w'. save_skill rt w name code description parameters returns example version =
                        (Inr res, w') \<and> s_functions res = fs))"
proof -
  have lim: "\<not> (MAX_SKILLS \<le> length (list_skills w) \<and> name \<notin> set (list_skills w))"
    using assms(2) by auto
  show ?thesis
    unfolding save_skill_def
    by (simp add: assms(1) assms(3) lim Let_def now_def split: prod.splits)
qed

lemma walk_queue_level_order: "walk_queue q = level_order q"
proof (induction q rule: level_order.induct)
  case (1 level)
  show ?case
  proof (cases "level = []")
    case True
    then show ?thesis by (simp add: level_order.simps)
  next
    case False
    have "walk_queue level = level @ walk_queue (concat (map children level))"
      using walk_queue_append [of level "[]"] by simp
    also have "\<dots> = level @ level_order (concat (map children level))"
      using 1 False by simp
    also have "\<dots> = level_order level"
      using False level_order.simps [of level] by simp
    finally show ?thesis .
  qed
qed

lemma save_skill_parses_only:
  "save_skill (rt\<lparr>rt_alarm := al, rt_exec_unbounded := eu, rt_exec_bounded := eb,
                   rt_import := im, rt_exec_module := em, rt_call := ca\<rparr>)
     w name code description parameters returns example version =
   save_skill rt w name code description parameters returns example version"
proof -
  have v: "validate_code (rt\<lparr>rt_alarm := al, rt_exec_unbounded := eu, rt_exec_bounded := eb,
                             rt_import := im, rt_exec_module := em, rt_call := ca\<rparr>) code =
           validate_code rt code"
    by (simp add: validate_code_def)
  have n: "now (rt\<lparr>rt_alarm := al, rt_exec_unbounded := eu, rt_exec_bounded := eb,
                   rt_import := im, rt_exec_module := em, rt_call := ca\<rparr>) x = now rt x" for x
    by (simp add: now_def)
  show ?thesis
    unfolding save_skill_def v n by (rule refl)
qed

text \<open>
  C7, as the code has it: \<open>save_skill\<close> parses the code and never runs it: its result and
  the store it leaves are the same whatever \<open>exec\<close>, the call of a function, the import and
  the alarm of the interpreter would do. It collects the names of all plain function
  definitions of the tree, nested functions and methods included, coroutines and classes
  left out, in the breadth-first order of \<open>ast.walk\<close>: the definitions of the module level
  from left to right, then those among the children of that level, and so on. As a
  multiset these are the function definitions found anywhere in the tree, and the
  functions defined at top level come first, in the order of the module. It returns that
  list and fails when the list is empty.
\<close>

theorem functions_extracted:
  assumes "validate_skill_name name = None"
      and "length (list_skills w) < MAX_SKILLS \<or> name \<in> set (list_skills w)"
      and "strip code \<noteq> []"
      and "length code \<le> MAX_SKILL_SIZE"
      and "rt_parse rt code = Inr (Node Module_node body)"
  shows "(\<exists>fs. validate_code rt code = Inr \<lparr>v_valid = True, v_functions = fs, v_error = None\<rparr> \<and>
            fs = List.map_filter function_def_name (level_order [Node Module_node body]) \<and>
            mset fs = mset (function_defs_in (Node Module_node body)) \<and>
            prefix (top_level_functions (Node Module_node body)) fs \<and>
            (fs = [] \<longrightarrow>
               save_skill rt w name code description parameters returns example version =
                 (Inl (ValueError ''Code must define at least one function''), w)) \<and>
            (fs \<noteq> [] \<longrightarrow>
               (\<exists>res w'. save_skill rt w name code description parameters returns example version =
                           (Inr res, w') \<and> s_functions res = fs))) \<and>
         save_skill (rt\<lparr>rt_alarm := al, rt_exec_unbounded := eu, rt_exec_bounded := eb,
                         rt_import := im, rt_exec_module := em, rt_call := ca\<rparr>)
           w name code description parameters returns example version =
         save_skill rt w name code description parameters returns example version"
proof -
  let ?fs = "List.map_filter function_def_name (ast_walk (Node Module_node body))"
  let ?deeper = "List.map_filter function_def_name (walk_queue (concat (map children body)))"
  have ne: "code \<noteq> []" using assms(3) by auto
  have big: "\<not> MAX_SKILL_SIZE < length code" using assms(4) by simp
  have v: "validate_code rt code = Inr \<lparr>v_valid = True, v_functions = ?fs, v_error = None\<rparr>"
    unfolding validate_code_def by (simp add: assms(3) assms(5) ne big)
  have l: "?fs = List.map_filter function_def_name (level_order [Node Module_node body])"
    by (simp add: ast_walk_def walk_queue_level_order)
  have m: "mset ?fs = mset (function_defs_in (Node Module_node body))"
    by (rule names_ast_walk)
  have "?fs = top_level_functions (Node Module_node body) @ ?deeper"
    by (rule names_top_level_first)
  then have p: "prefix (top_level_functions (Node Module_node body)) ?fs"
    by (metis prefixI)
  note s = save_functions [OF assms(1) assms(2) v, of description parameters returns example
             version]
  have first: "\<exists>fs. validate_code rt code = Inr \<lparr>v_valid = True, v_functions = fs, v_error = None\<rparr> \<and>
            fs = List.map_filter function_def_name (level_order [Node Module_node body]) \<and>
            mset fs = mset (function_defs_in (Node Module_node body)) \<and>
            prefix (top_level_functions (Node Module_node body)) fs \<and>
            (fs = [] \<longrightarrow>
               save_skill rt w name code description parameters returns example version =
                 (Inl (ValueError ''Code must define at least one function''), w)) \<and>
            (fs \<noteq> [] \<longrightarrow>
               (\<exists>res w'. save_skill rt w name code description parameters returns example version =
                           (Inr res, w') \<and> s_functions res = fs))"
    apply (rule exI [of _ ?fs])
    using v l m p s apply (intro conjI)
         apply assumption
        apply assumption
       apply assumption
      apply assumption
     apply (erule conjunct1)
    apply (erule conjunct2)
    done
  show ?thesis
    apply (rule conjI)
     apply (rule first)
    apply (rule save_skill_parses_only)
    done
qed

lemma save_skill_ok:
  assumes "validate_skill_name name = None"
      and "length (list_skills w) < MAX_SKILLS \<or> name \<in> set (list_skills w)"
      and "validate_code rt code = Inr \<lparr>v_valid = True, v_functions = fs, v_error = None\<rparr>"
      and "fs \<noteq> []"
  shows "save_skill rt w name code description parameters returns example version =
     (Inr \<lparr>s_success = True, s_name = name, s_functions = fs,
           s_message = ''Skill '' @ quote @ name @ quote @ '' saved with functions: '' @
                       join '', '' fs\<rparr>,
      \<lparr>skills = AList.update name
          \<lparr>implementation_py = Some code,
           metadata_json = Some
             \<lparr>m_name = name, m_description = description, m_functions = fs,
              m_parameters = Some (case parameters of Some p \<Rightarrow> p | None \<Rightarrow> []),
              m_returns = Some returns, m_version = Some version,
              m_created = Some (iso (rt_clock rt (ticks w))),
              m_updated = Some (iso (rt_clock rt (Suc (ticks w))))\<rparr>,
           SKILL_md = Some
             (SKILL_MD_TEMPLATE name description (params_example parameters)
                (params_text parameters) returns
                (if example \<noteq> [] then example else default_example name)
                (ymd (rt_clock rt (Suc (Suc (ticks w))))) version)\<rparr>
          (skills w),
       ticks = Suc (Suc (Suc (ticks w)))\<rparr>)"
proof -
  have lim: "\<not> (MAX_SKILLS \<le> length (list_skills w) \<and> name \<notin> set (list_skills w))"
    using assms(2) by auto
  show ?thesis
    unfolding save_skill_def
    by (simp add: assms(1) assms(3) assms(4) lim Let_def now_def)
qed

lemma name_nested: "validate_skill_name ''nested'' = None"
  by (simp add: validate_skill_name_def str_isalnum_def isalnum_def remove_char_def lower_def
  lower_char_def reserved_def)

lemma list_skills_empty: "list_skills empty_world = []"
  by (simp add: list_skills_def empty_world_def)

lemma strip_nested: "strip skill_code_nested \<noteq> []"
  by (simp add: strip_def strip_with_def isspace_def skill_code_nested_def nl_def)

lemma length_nested: "length skill_code_nested \<le> MAX_SKILL_SIZE"
  by (simp add: skill_code_nested_def nl_def MAX_SKILL_SIZE_def)

lemma nested_not_fg: "skill_code_nested \<noteq> skill_code_fg"
  by (simp add: skill_code_nested_def skill_code_fg_def nl_def quote_def)

lemma parse_nested: "rt_parse sample_runtime skill_code_nested = Inr (Node Module_node
                  [Node (FunctionDef ''f'')
                     [leaf, Node (FunctionDef ''g'') [leaf, leaf],
                      Node Other_node [Node Other_node [leaf]]]])"
  using nested_not_fg by (simp add: sample_runtime_def sample_parse_def)

lemma names_nested: "List.map_filter function_def_name (ast_walk (Node Module_node
                  [Node (FunctionDef ''f'')
                     [leaf, Node (FunctionDef ''g'') [leaf, leaf],
                      Node Other_node [Node Other_node [leaf]]]])) = [''f'', ''g'']"
  by (simp add: leaf_def ast_walk_def List.map_filter_simps)

lemma validate_nested: "validate_code sample_runtime skill_code_nested = Inr \<lparr>v_valid = True, v_functions = [''f'', ''g''], v_error = None\<rparr>"
  using strip_nested length_nested
  by (auto simp: validate_code_def parse_nested names_nested)

text \<open>
  C7. The claim: exactly the callables declared at top level are extracted. For a module
  that defines \<open>f\<close> with a function \<open>g\<close> nested inside, \<open>save_skill\<close> returns both names,
  while the module declares \<open>f\<close> only.
\<close>

theorem nested_function_extracted:
  "fst (save_skill sample_runtime empty_world ''nested'' skill_code_nested ''d'' None ''r'' []
          ''1.0.0'') =
     Inr \<lparr>s_success = True, s_name = ''nested'', s_functions = [''f'', ''g''],
          s_message = ''Skill '' @ quote @ ''nested'' @ quote @ '' saved with functions: f, g''\<rparr> \<and>
   map_sum id top_level_callables (rt_parse sample_runtime skill_code_nested) = Inr [''f'']"
proof -
  have "length (list_skills empty_world) < MAX_SKILLS \<or> ''nested'' \<in> set (list_skills empty_world)"
    by (simp add: list_skills_empty MAX_SKILLS_def)
  from save_skill_ok [OF name_nested this validate_nested]
  show ?thesis by (simp add: parse_nested List.map_filter_simps leaf_def)
qed


lemma name_fg: "validate_skill_name ''fg'' = None"
  by (simp add: validate_skill_name_def str_isalnum_def isalnum_def remove_char_def lower_def
                lower_char_def reserved_def)

lemma strip_fg: "strip skill_code_fg \<noteq> []"
  by (simp add: strip_def strip_with_def isspace_def skill_code_fg_def nl_def quote_def)

lemma length_fg: "length skill_code_fg \<le> MAX_SKILL_SIZE"
  by (simp add: skill_code_fg_def nl_def quote_def MAX_SKILL_SIZE_def)

lemma parse_fg:
  "rt_parse sample_runtime skill_code_fg =
     Inr (Node Module_node
            [Node (FunctionDef ''f'') [leaf, Node Other_node [leaf]],
             Node (FunctionDef ''g'') [leaf, Node Other_node [leaf]]])"
  by (simp add: sample_fields sample_parse_def)

lemma limit_empty:
  "length (list_skills empty_world) < MAX_SKILLS \<or> name \<in> set (list_skills empty_world)"
  by (simp add: list_skills_empty MAX_SKILLS_def)

lemma name_nodef: "validate_skill_name ''nodef'' = None"
  by (simp add: validate_skill_name_def str_isalnum_def isalnum_def remove_char_def lower_def
                lower_char_def reserved_def)

lemma strip_no_def: "strip skill_code_no_def \<noteq> []"
  by (simp add: strip_def strip_with_def isspace_def skill_code_no_def_def)

lemma length_no_def: "length skill_code_no_def \<le> MAX_SKILL_SIZE"
  by (simp add: skill_code_no_def_def MAX_SKILL_SIZE_def)

lemma no_def_not_others:
  "skill_code_no_def \<noteq> skill_code_fg" "skill_code_no_def \<noteq> skill_code_nested"
  "skill_code_no_def \<noteq> skill_code_import"
  by (simp_all add: skill_code_no_def_def skill_code_fg_def skill_code_nested_def
                    skill_code_import_def)

lemma parse_no_def:
  "rt_parse sample_runtime skill_code_no_def =
     Inr (Node Module_node [Node Other_node [Node Other_node [leaf], leaf]])"
  using no_def_not_others by (simp add: sample_fields sample_parse_def)

lemma names_fg:
  "List.map_filter function_def_name (ast_walk (Node Module_node
            [Node (FunctionDef ''f'') [leaf, Node Other_node [leaf]],
             Node (FunctionDef ''g'') [leaf, Node Other_node [leaf]]])) = [''f'', ''g'']"
  by (simp add: leaf_def ast_walk_def List.map_filter_simps)

lemma names_no_def:
  "List.map_filter function_def_name (ast_walk (Node Module_node
            [Node Other_node [Node Other_node [leaf], leaf]])) = []"
  by (simp add: leaf_def ast_walk_def List.map_filter_simps)

theorem functions_extracted_witness:
  "(\<exists>res w'. save_skill sample_runtime empty_world ''fg'' skill_code_fg ''first'' None
               ''a letter'' ''x = f()'' ''1.0.0'' = (Inr res, w') \<and>
             s_functions res = [''f'', ''g'']) \<and>
   save_skill sample_runtime empty_world ''nodef'' skill_code_no_def ''first'' None
     ''a letter'' [] ''1.0.0'' =
     (Inl (ValueError ''Code must define at least one function''), empty_world) \<and>
   save_skill (sample_runtime\<lparr>rt_alarm := (\<lambda>t. Inr None),
                 rt_exec_unbounded := (\<lambda>g src. \<lparr>emitted = [], ending = Hangs\<rparr>),
                 rt_exec_bounded := (\<lambda>g src n. Expired []),
                 rt_import := (\<lambda>name. Inl (ImportError name)),
                 rt_exec_module := (\<lambda>g src. Exec_hangs),
                 rt_call := (\<lambda>func kwargs. Call_hangs)\<rparr>)
     empty_world ''fg'' skill_code_fg ''first'' None ''a letter'' ''x = f()'' ''1.0.0'' =
   save_skill sample_runtime empty_world ''fg'' skill_code_fg ''first'' None
     ''a letter'' ''x = f()'' ''1.0.0''"
proof -
  let ?tree = "Node Module_node
            [Node (FunctionDef ''f'') [leaf, Node Other_node [leaf]],
             Node (FunctionDef ''g'') [leaf, Node Other_node [leaf]]]"
  let ?none = "Node Module_node [Node Other_node [Node Other_node [leaf], leaf]]"
  note t1 = functions_extracted [OF name_fg limit_empty strip_fg length_fg parse_fg,
            where description = "''first''" and parameters = None and returns = "''a letter''"
              and example = "''x = f()''" and version = "''1.0.0''"
              and al = "\<lambda>t. Inr None" and eu = "\<lambda>g src. \<lparr>emitted = [], ending = Hangs\<rparr>"
              and eb = "\<lambda>g src n. Expired []" and im = "\<lambda>name. Inl (ImportError name)"
              and em = "\<lambda>g src. Exec_hangs" and ca = "\<lambda>func kwargs. Call_hangs"]
  note t2 = functions_extracted [OF name_nodef limit_empty strip_no_def length_no_def
            parse_no_def,
            where description = "''first''" and parameters = None and returns = "''a letter''"
              and example = "[]" and version = "''1.0.0''"]
  have fg: "List.map_filter function_def_name (level_order [?tree]) = [''f'', ''g'']"
    using names_fg by (simp add: ast_walk_def walk_queue_level_order)
  have nd: "List.map_filter function_def_name (level_order [?none]) = []"
    using names_no_def by (simp add: ast_walk_def walk_queue_level_order)
  obtain fs where
      e: "fs = List.map_filter function_def_name (level_order [?tree])"
    and s: "fs \<noteq> [] \<longrightarrow>
          (\<exists>res w'. save_skill sample_runtime empty_world ''fg'' skill_code_fg ''first'' None
               ''a letter'' ''x = f()'' ''1.0.0'' = (Inr res, w') \<and> s_functions res = fs)"
    using t1 by blast
  obtain gs where
      e': "gs = List.map_filter function_def_name (level_order [?none])"
    and s': "gs = [] \<longrightarrow>
          save_skill sample_runtime empty_world ''nodef'' skill_code_no_def ''first'' None
            ''a letter'' [] ''1.0.0'' =
            (Inl (ValueError ''Code must define at least one function''), empty_world)"
    using t2 by blast
  have 1: "\<exists>res w'. save_skill sample_runtime empty_world ''fg'' skill_code_fg ''first'' None
               ''a letter'' ''x = f()'' ''1.0.0'' = (Inr res, w') \<and>
             s_functions res = [''f'', ''g'']"
    using e s fg by simp
  have 2: "save_skill sample_runtime empty_world ''nodef'' skill_code_no_def ''first'' None
     ''a letter'' [] ''1.0.0'' =
     (Inl (ValueError ''Code must define at least one function''), empty_world)"
    using e' s' nd by simp
  have 3: "save_skill (sample_runtime\<lparr>rt_alarm := (\<lambda>t. Inr None),
                 rt_exec_unbounded := (\<lambda>g src. \<lparr>emitted = [], ending = Hangs\<rparr>),
                 rt_exec_bounded := (\<lambda>g src n. Expired []),
                 rt_import := (\<lambda>name. Inl (ImportError name)),
                 rt_exec_module := (\<lambda>g src. Exec_hangs),
                 rt_call := (\<lambda>func kwargs. Call_hangs)\<rparr>)
     empty_world ''fg'' skill_code_fg ''first'' None ''a letter'' ''x = f()'' ''1.0.0'' =
   save_skill sample_runtime empty_world ''fg'' skill_code_fg ''first'' None
     ''a letter'' ''x = f()'' ''1.0.0''"
    using t1 by (rule conjunct2)
  show ?thesis
    apply (rule conjI)
     apply (rule 1)
    apply (rule conjI)
     apply (rule 2)
    apply (rule 3)
    done
qed

section \<open>Running a skill\<close>

lemma validate_fg:
  "validate_code sample_runtime skill_code_fg =
     Inr \<lparr>v_valid = True, v_functions = [''f'', ''g''], v_error = None\<rparr>"
  using strip_fg length_fg
  by (auto simp: validate_code_def parse_fg names_fg)

lemma world_fg_eq:
  "world_fg = \<lparr>skills = [(''fg'', dir_fg ''first'' ''x = f()'' ''1.0.0'' 0)], ticks = 3\<rparr>"
proof -
  have c: "rt_clock sample_runtime = sample_clock" by (rule sample_fields)
  have y: "ymd (sample_clock n) = ''2024-01-15''" for n by (simp add: sample_clock_def)
  have e: "skills empty_world = []" "ticks empty_world = 0" by (simp_all add: empty_world_def)
  show ?thesis
    unfolding world_fg_def
    using save_skill_ok [OF name_fg limit_empty validate_fg, of "''first''" None "''a letter''"
            "''x = f()''" "''1.0.0''"]
    by (simp add: dir_fg_def c y e params_example_def params_text_def)
qed

lemma get_fg:
  "get_skill world_fg ''fg'' =
     Inr \<lparr>i_name = ''fg'', i_code = skill_code_fg,
          i_metadata =
            \<lparr>m_name = ''fg'', m_description = ''first'', m_functions = [''f'', ''g''],
             m_parameters = Some [], m_returns = Some ''a letter'', m_version = Some ''1.0.0'',
             m_created = Some (iso (sample_clock 0)),
             m_updated = Some (iso (sample_clock (Suc 0)))\<rparr>,
          i_skill_md = SKILL_MD_TEMPLATE ''fg'' ''first'' [] ''None'' ''a letter'' ''x = f()''
                         ''2024-01-15'' ''1.0.0'',
          i_description = ''first'', i_functions = [''f'', ''g''], i_parameters = [],
          i_version = ''1.0.0''\<rparr>"
  by (simp add: get_skill_def name_fg world_fg_eq dir_fg_def)

lemma exec_module_fg:
  "rt_exec_module sample_runtime (run_skill_globals sample_runtime) skill_code_fg =
     Bound (AList.update ''g'' (Function ''g'')
             (AList.update ''f'' (Function ''f'') (run_skill_globals sample_runtime)))"
proof -
  have n: "skill_code_fg \<noteq> skill_code_import"
    by (simp add: skill_code_fg_def skill_code_import_def)
  have p: "sample_parse skill_code_fg =
     Inr (Node Module_node
            [Node (FunctionDef ''f'') [leaf, Node Other_node [leaf]],
             Node (FunctionDef ''g'') [leaf, Node Other_node [leaf]]])"
    using parse_fg by (simp add: sample_fields)
  show ?thesis
    using n by (simp add: sample_fields sample_exec_module_def p List.map_filter_simps)
qed

lemma bound_fg:
  "map_of (AList.update ''g'' (Function ''g'')
             (AList.update ''f'' (Function ''f'') (run_skill_globals sample_runtime))) ''f'' =
     Some (Function ''f'')"
  "map_of (AList.update ''g'' (Function ''g'')
             (AList.update ''f'' (Function ''f'') (run_skill_globals sample_runtime))) ''g'' =
     Some (Function ''g'')"
  by (simp_all add: update_conv')

lemma name_co: "validate_skill_name ''co'' = None"
  by (simp add: validate_skill_name_def str_isalnum_def isalnum_def remove_char_def lower_def
                lower_char_def reserved_def)

lemma strip_async: "strip skill_code_async \<noteq> []"
  by (simp add: strip_def strip_with_def isspace_def skill_code_async_def nl_def quote_def)

lemma length_async: "length skill_code_async \<le> MAX_SKILL_SIZE"
  by (simp add: skill_code_async_def nl_def quote_def MAX_SKILL_SIZE_def)

lemma async_not_others:
  "skill_code_async \<noteq> skill_code_fg" "skill_code_async \<noteq> skill_code_nested"
  "skill_code_async \<noteq> skill_code_import" "skill_code_async \<noteq> skill_code_no_def"
  by (simp_all add: skill_code_async_def skill_code_fg_def skill_code_nested_def
                    skill_code_import_def skill_code_no_def_def)

lemma parse_async:
  "sample_parse skill_code_async =
     Inr (Node Module_node
            [Node (AsyncFunctionDef ''f'') [leaf, Node Other_node [leaf]],
             Node (FunctionDef ''g'') [leaf, Node Other_node [leaf]]])"
  using async_not_others by (simp add: sample_parse_def)

lemma names_async:
  "List.map_filter function_def_name (ast_walk (Node Module_node
            [Node (AsyncFunctionDef ''f'') [leaf, Node Other_node [leaf]],
             Node (FunctionDef ''g'') [leaf, Node Other_node [leaf]]])) = [''g'']"
  by (simp add: leaf_def ast_walk_def List.map_filter_simps)

lemma validate_async:
  "validate_code sample_runtime skill_code_async =
     Inr \<lparr>v_valid = True, v_functions = [''g''], v_error = None\<rparr>"
  using strip_async length_async
  by (auto simp: validate_code_def sample_fields parse_async names_async)

lemma get_async:
  "\<exists>info. get_skill world_async ''co'' = Inr info \<and> i_code info = skill_code_async \<and>
          i_functions info = [''g'']"
proof -
  have e: "skills empty_world = []" by (simp add: empty_world_def)
  show ?thesis
    unfolding world_async_def
    using save_skill_ok [OF name_co limit_empty validate_async, of "''a coroutine first''" None
            "''a letter''" "[]" "''1.0.0''"]
    by (simp add: get_skill_def name_co e)
qed

lemma exec_module_async:
  "rt_exec_module sample_runtime (run_skill_globals sample_runtime) skill_code_async =
     Bound (AList.update ''g'' (Function ''g'')
             (AList.update ''f'' (Function ''f'') (run_skill_globals sample_runtime)))"
  using async_not_others
  by (simp add: sample_fields sample_exec_module_def parse_async List.map_filter_simps)

text \<open>
  C8. The claim: for a skill whose declared callables are \<open>f\<close> then \<open>g\<close>, a run without a
  function argument invokes \<open>f\<close>, and a run with an undeclared function name fails without
  invoking anything. The list a run selects from holds the plain function definitions
  only: for the module that declares the coroutine \<open>f\<close> and then the function \<open>g\<close>, both
  bound when the code is executed, a run without a function argument invokes \<open>g\<close>, and
  \<open>f\<close> is refused as not found. The empty text is an undeclared name, but
  \<open>if function:\<close> takes it for no argument: on the skill that declares the functions \<open>f\<close>
  then \<open>g\<close> the code is executed and \<open>f\<close> is invoked.
\<close>

theorem run_skill_coroutine_and_empty_name:
  "map_sum id top_level_callables (rt_parse sample_runtime skill_code_async) =
     Inr [''f'', ''g''] \<and>
   run_skill sample_runtime world_async ''co'' None [] =
     (Returned (PyStr ''g''),
      [Exec (run_skill_globals sample_runtime) skill_code_async, Call (Function ''g'') []]) \<and>
   run_skill sample_runtime world_async ''co'' (Some ''f'') [] =
     (Propagated (ValueError
        (''Function '' @ quote @ ''f'' @ quote @ '' not found in skill '' @
         quote @ ''co'' @ quote @ ''. '' @ ''Available: g'')), []) \<and>
   map_sum id top_level_callables (rt_parse sample_runtime skill_code_fg) =
     Inr [''f'', ''g''] \<and>
   run_skill sample_runtime world_fg ''fg'' (Some []) [] =
     (Returned (PyStr ''f''),
      [Exec (run_skill_globals sample_runtime) skill_code_fg, Call (Function ''f'') []])"
proof -
  obtain info where i: "get_skill world_async ''co'' = Inr info"
      "i_code info = skill_code_async" "i_functions info = [''g'']"
    using get_async by blast
  have cf: "rt_call sample_runtime (Function ''f'') [] = Value (PyStr ''f'')"
    by (simp add: sample_fields sample_call_def)
  have cg: "rt_call sample_runtime (Function ''g'') [] = Value (PyStr ''g'')"
    by (simp add: sample_fields sample_call_def)
  have 1: "map_sum id top_level_callables (rt_parse sample_runtime skill_code_async) =
             Inr [''f'', ''g'']"
    by (simp add: sample_fields parse_async List.map_filter_simps)
  have 2: "run_skill sample_runtime world_async ''co'' None [] =
     (Returned (PyStr ''g''),
      [Exec (run_skill_globals sample_runtime) skill_code_async, Call (Function ''g'') []])"
    by (simp add: run_skill_def i exec_module_async update_conv' cg Let_def)
  have 3: "run_skill sample_runtime world_async ''co'' (Some ''f'') [] =
     (Propagated (ValueError
        (''Function '' @ quote @ ''f'' @ quote @ '' not found in skill '' @
         quote @ ''co'' @ quote @ ''. '' @ ''Available: g'')), [])"
    by (simp add: run_skill_def i Let_def)
  have 4: "map_sum id top_level_callables (rt_parse sample_runtime skill_code_fg) =
             Inr [''f'', ''g'']"
    by (simp add: parse_fg List.map_filter_simps)
  have 5: "run_skill sample_runtime world_fg ''fg'' (Some []) [] =
     (Returned (PyStr ''f''),
      [Exec (run_skill_globals sample_runtime) skill_code_fg, Call (Function ''f'') []])"
    by (simp add: run_skill_def get_fg exec_module_fg update_conv' cf Let_def)
  show ?thesis using 1 2 3 4 5 by simp
qed

text \<open>
  C8, as the code has it: for a skill whose stored function list (the plain function
  definitions found when it was saved) is \<open>f\<close> then \<open>g\<close>, with \<open>g\<close> not the empty text, and
  whose code binds both names when it is executed: \<open>run_skill\<close> without a function
  argument executes the code and calls
  the object bound to \<open>f\<close>, with the function \<open>g\<close> it calls the object bound to \<open>g\<close>, and
  the value of the call is returned. The empty text as function name behaves as no
  argument. With a name \<open>h\<close> that is not empty and is neither \<open>f\<close> nor \<open>g\<close> it raises a
  \<open>ValueError\<close> whose message lists \<open>f, g\<close>, before the code of the skill is executed and
  before anything is called.
\<close>

theorem run_skill_selects:
  assumes "get_skill w name = Inr info"
      and "i_functions info = [f, g]"
      and "g \<noteq> []"
      and "rt_exec_module rt (run_skill_globals rt) (i_code info) = Bound bound"
      and "map_of bound f = Some func_f"
      and "map_of bound g = Some func_g"
  shows "snd (run_skill rt w name None kwargs) =
           [Exec (run_skill_globals rt) (i_code info), Call func_f kwargs] \<and>
         (rt_call rt func_f kwargs = Value v \<longrightarrow>
            fst (run_skill rt w name None kwargs) = Returned v) \<and>
         snd (run_skill rt w name (Some g) kwargs) =
           [Exec (run_skill_globals rt) (i_code info), Call func_g kwargs] \<and>
         (rt_call rt func_g kwargs = Value v' \<longrightarrow>
            fst (run_skill rt w name (Some g) kwargs) = Returned v') \<and>
         run_skill rt w name (Some []) kwargs = run_skill rt w name None kwargs \<and>
         (h \<noteq> [] \<and> h \<noteq> f \<and> h \<noteq> g \<longrightarrow>
            run_skill rt w name (Some h) kwargs =
              (Propagated (ValueError
                 (''Function '' @ quote @ h @ quote @ '' not found in skill '' @
                  quote @ name @ quote @ ''. '' @ ''Available: '' @ f @ '', '' @ g)), []))"
proof (intro conjI impI)
  show "snd (run_skill rt w name None kwargs) =
           [Exec (run_skill_globals rt) (i_code info), Call func_f kwargs]"
    by (cases "rt_call rt func_f kwargs")
       (simp_all add: run_skill_def assms(1) assms(2) assms(4) assms(5) Let_def)
next
  assume "rt_call rt func_f kwargs = Value v"
  then show "fst (run_skill rt w name None kwargs) = Returned v"
    by (simp add: run_skill_def assms(1) assms(2) assms(4) assms(5) Let_def)
next
  show "snd (run_skill rt w name (Some g) kwargs) =
           [Exec (run_skill_globals rt) (i_code info), Call func_g kwargs]"
    by (cases "rt_call rt func_g kwargs")
       (simp_all add: run_skill_def assms(1) assms(2) assms(3) assms(4) assms(6) Let_def)
next
  assume "rt_call rt func_g kwargs = Value v'"
  then show "fst (run_skill rt w name (Some g) kwargs) = Returned v'"
    by (simp add: run_skill_def assms(1) assms(2) assms(3) assms(4) assms(6) Let_def)
next
  show "run_skill rt w name (Some []) kwargs = run_skill rt w name None kwargs"
    by (simp add: run_skill_def assms(1) assms(2) Let_def)
next
  assume "h \<noteq> [] \<and> h \<noteq> f \<and> h \<noteq> g"
  then show "run_skill rt w name (Some h) kwargs =
              (Propagated (ValueError
                 (''Function '' @ quote @ h @ quote @ '' not found in skill '' @
                  quote @ name @ quote @ ''. '' @ ''Available: '' @ f @ '', '' @ g)), [])"
    by (simp add: run_skill_def assms(1) assms(2) Let_def)
qed

theorem run_skill_selects_witness:
  "run_skill sample_runtime world_fg ''fg'' None [] =
     (Returned (PyStr ''f''),
      [Exec (run_skill_globals sample_runtime) skill_code_fg, Call (Function ''f'') []]) \<and>
   run_skill sample_runtime world_fg ''fg'' (Some ''g'') [] =
     (Returned (PyStr ''g''),
      [Exec (run_skill_globals sample_runtime) skill_code_fg, Call (Function ''g'') []]) \<and>
   run_skill sample_runtime world_fg ''fg'' (Some []) [] =
     (Returned (PyStr ''f''),
      [Exec (run_skill_globals sample_runtime) skill_code_fg, Call (Function ''f'') []]) \<and>
   run_skill sample_runtime world_fg ''fg'' (Some ''h'') [] =
     (Propagated (ValueError
        (''Function '' @ quote @ ''h'' @ quote @ '' not found in skill '' @
         quote @ ''fg'' @ quote @ ''. '' @ ''Available: f, g'')), [])"
proof -
  have cf: "rt_call sample_runtime (Function ''f'') [] = Value (PyStr ''f'')"
    by (simp add: sample_fields sample_call_def)
  have cg: "rt_call sample_runtime (Function ''g'') [] = Value (PyStr ''g'')"
    by (simp add: sample_fields sample_call_def)
  have e: "rt_exec_module sample_runtime (run_skill_globals sample_runtime)
             (i_code \<lparr>i_name = ''fg'', i_code = skill_code_fg,
          i_metadata =
            \<lparr>m_name = ''fg'', m_description = ''first'', m_functions = [''f'', ''g''],
             m_parameters = Some [], m_returns = Some ''a letter'', m_version = Some ''1.0.0'',
             m_created = Some (iso (sample_clock 0)),
             m_updated = Some (iso (sample_clock (Suc 0)))\<rparr>,
          i_skill_md = SKILL_MD_TEMPLATE ''fg'' ''first'' [] ''None'' ''a letter'' ''x = f()''
                         ''2024-01-15'' ''1.0.0'',
          i_description = ''first'', i_functions = [''f'', ''g''], i_parameters = [],
          i_version = ''1.0.0''\<rparr>) =
     Bound (AList.update ''g'' (Function ''g'')
             (AList.update ''f'' (Function ''f'') (run_skill_globals sample_runtime)))"
    using exec_module_fg by simp
  have g: "''g'' \<noteq> []" by simp
  note t = run_skill_selects [OF get_fg _ g e bound_fg(1) bound_fg(2),
             where kwargs = "[]" and v = "PyStr ''f''" and v' = "PyStr ''g''" and h = "''h''"]
  have "run_skill sample_runtime world_fg ''fg'' None [] =
          (fst (run_skill sample_runtime world_fg ''fg'' None []),
           snd (run_skill sample_runtime world_fg ''fg'' None []))" by simp
  moreover have "run_skill sample_runtime world_fg ''fg'' (Some ''g'') [] =
          (fst (run_skill sample_runtime world_fg ''fg'' (Some ''g'') []),
           snd (run_skill sample_runtime world_fg ''fg'' (Some ''g'') []))" by simp
  ultimately show ?thesis using t cf cg by simp
qed

lemma name_net: "validate_skill_name ''net'' = None"
  by (simp add: validate_skill_name_def str_isalnum_def isalnum_def remove_char_def lower_def
                lower_char_def reserved_def)

lemma strip_import: "strip skill_code_import \<noteq> []"
  by (simp add: strip_def strip_with_def isspace_def skill_code_import_def nl_def quote_def)

lemma length_import: "length skill_code_import \<le> MAX_SKILL_SIZE"
  by (simp add: skill_code_import_def nl_def quote_def MAX_SKILL_SIZE_def)

lemma import_not_others:
  "skill_code_import \<noteq> skill_code_fg" "skill_code_import \<noteq> skill_code_nested"
  by (simp_all add: skill_code_import_def skill_code_fg_def skill_code_nested_def)

lemma parse_import:
  "sample_parse skill_code_import =
     Inr (Node Module_node
            [Node Other_node [leaf], Node (FunctionDef ''f'') [leaf, Node Other_node [leaf]]])"
  using import_not_others by (simp add: sample_parse_def)

lemma names_import:
  "List.map_filter function_def_name (ast_walk (Node Module_node
     [Node Other_node [leaf], Node (FunctionDef ''f'') [leaf, Node Other_node [leaf]]])) = [''f'']"
  by (simp add: leaf_def ast_walk_def List.map_filter_simps)

lemma validate_import:
  "validate_code sample_runtime skill_code_import =
     Inr \<lparr>v_valid = True, v_functions = [''f''], v_error = None\<rparr>"
  using strip_import length_import
  by (auto simp: validate_code_def sample_fields parse_import names_import)

lemma get_net:
  "\<exists>info. get_skill world_net ''net'' = Inr info \<and> i_code info = skill_code_import \<and>
          i_functions info = [''f'']"
proof -
  have e: "skills empty_world = []" by (simp add: empty_world_def)
  show ?thesis
    unfolding world_net_def
    using save_skill_ok [OF name_net limit_empty validate_import, of "''imports a module''" None
            "''a letter''" "[]" "''1.0.0''"]
    by (simp add: get_skill_def name_net e)
qed

lemma exec_module_import_host:
  "rt_exec_module sample_runtime (run_skill_globals sample_runtime) skill_code_import =
     Bound (AList.update ''f'' (Function ''f'')
             (AList.update ''socket'' (Module ''socket'') (run_skill_globals sample_runtime)))"
  by (simp add: sample_fields sample_exec_module_def parse_import List.map_filter_simps
                sample_host_import sample_real_import_def base_module_socket)

lemma exec_module_import_sandbox:
  "rt_exec_module sample_runtime (create_execution_globals sample_runtime) skill_code_import =
     Exec_raised (ImportError (import_rejected ALLOWED_IMPORTS ''socket''))"
  using socket_rejected
  by (simp add: sample_fields sample_exec_module_def parse_import List.map_filter_simps
                sample_gate create_safe_import_def)

text \<open>
  C1. The claim: \<open>run_skill\<close> executes the code of a skill in the restricted namespace of
  \<open>create_execution_globals\<close>. The code builds \<open>exec_globals\<close> from the module's own,
  unrestricted \<open>__builtins__\<close>, without the gated import, although the docstring of
  \<open>run_skill\<close> promises the restricted environment of \<open>execute_code\<close>. A skill whose code
  imports \<open>socket\<close> is executed and its function called; under the namespace of
  \<open>create_execution_globals\<close>, which binds no \<open>open\<close> and the gated \<open>__import__\<close>, the same
  code is rejected.
\<close>

theorem run_skill_namespace_unrestricted:
  "run_skill sample_runtime world_net ''net'' None [] =
     (Returned (PyStr ''f''),
      [Exec (run_skill_globals sample_runtime) skill_code_import, Call (Function ''f'') []]) \<and>
   map_of (run_skill_globals sample_runtime) ''__builtins__'' = Some HostBuiltins \<and>
   map_of (create_execution_globals sample_runtime) ''__builtins__'' =
     Some (BuiltinsDict safe_builtins) \<and>
   map_of safe_builtins ''__import__'' = Some (SafeImport ALLOWED_IMPORTS) \<and>
   map_of safe_builtins ''open'' = None \<and>
   rt_exec_module sample_runtime (create_execution_globals sample_runtime) skill_code_import =
     Exec_raised (ImportError (import_rejected ALLOWED_IMPORTS ''socket''))"
proof -
  obtain info where i: "get_skill world_net ''net'' = Inr info"
      "i_code info = skill_code_import" "i_functions info = [''f'']"
    using get_net by blast
  have c: "rt_call sample_runtime (Function ''f'') [] = Value (PyStr ''f'')"
    by (simp add: sample_fields sample_call_def)
  have r: "run_skill sample_runtime world_net ''net'' None [] =
     (Returned (PyStr ''f''),
      [Exec (run_skill_globals sample_runtime) skill_code_import, Call (Function ''f'') []])"
    by (simp add: run_skill_def i exec_module_import_host update_conv' c Let_def)
  have b: "map_of safe_builtins ''__import__'' = Some (SafeImport ALLOWED_IMPORTS)"
          "map_of safe_builtins ''open'' = None"
    by (simp_all add: safe_builtins_def RESTRICTED_BUILTINS_def)
  show ?thesis
    using r b exec_module_import_sandbox
    by (simp add: run_skill_globals_def create_execution_globals_def)
qed

section \<open>Updating a skill\<close>

lemma list_skills_fg: "list_skills world_fg = [''fg'']"
  by (simp add: list_skills_def world_fg_eq dir_fg_def)

lemma limit_fg: "length (list_skills world_fg) < MAX_SKILLS \<or> ''fg'' \<in> set (list_skills world_fg)"
  by (simp add: list_skills_fg)

lemma version_fg: "increment_version ''1.0.0'' = Inr ''1.0.1''"
  by (simp add: increment_version_def int_of_str_def strip_with_def isspace_int_def
                is_digit_def valid_digits_def digit_value_def remove_char_def str_of_int_def
                MAX_STR_DIGITS_def str_int_def str_nat.simps digit_char_def Let_def
                sublist_code)

lemma update_fg:
  "update_skill sample_runtime world_fg ''fg'' None (Some ''second'') None None None =
     (Inr \<lparr>s_success = True, s_name = ''fg'', s_functions = [''f'', ''g''],
           s_message = ''Skill '' @ quote @ ''fg'' @ quote @ '' saved with functions: f, g''\<rparr>,
      \<lparr>skills = [(''fg'', dir_fg ''second'' (default_example ''fg'') ''1.0.1'' 3)],
       ticks = 6\<rparr>)"
proof -
  have c: "rt_clock sample_runtime = sample_clock" by (rule sample_fields)
  have y: "ymd (sample_clock n) = ''2024-01-15''" for n by (simp add: sample_clock_def)
  have w: "skills world_fg = [(''fg'', dir_fg ''first'' ''x = f()'' ''1.0.0'' 0)]"
          "ticks world_fg = 3"
    by (simp_all add: world_fg_eq)
  have n: "Suc (Suc (Suc 3)) = 6" "Suc 3 = 4" by simp_all
  show ?thesis
    unfolding update_skill_def
    using save_skill_ok [OF name_fg limit_fg validate_fg, of "''second''" "Some []" "''a letter''"
            "[]" "''1.0.1''"]
    by (simp add: get_fg version_fg dir_fg_def c y w params_example_def params_text_def)
qed

text \<open>
  C9. The claim: \<open>update_skill\<close> leaves every field that is not supplied, the example text
  included, at its prior value, and increments the last component of the version. The
  docstring says the same, but the code passes the empty text as example to \<open>save_skill\<close>,
  which then writes the default example. The skill saved with the example \<open>x = f()\<close> loses
  it in \<open>SKILL.md\<close> on an update of the description alone, while the version goes from
  \<open>1.0.0\<close> to \<open>1.0.1\<close>.
\<close>

theorem update_skill_drops_example:
  "map_of (skills world_fg) ''fg'' = Some (dir_fg ''first'' ''x = f()'' ''1.0.0'' 0) \<and>
   SKILL_md (dir_fg ''first'' ''x = f()'' ''1.0.0'' 0) =
     Some (SKILL_MD_TEMPLATE ''fg'' ''first'' [] ''None'' ''a letter'' ''x = f()''
             ''2024-01-15'' ''1.0.0'') \<and>
   map_of (skills (snd (update_skill sample_runtime world_fg ''fg'' None (Some ''second'')
                          None None None))) ''fg'' =
     Some (dir_fg ''second'' (default_example ''fg'') ''1.0.1'' 3) \<and>
   SKILL_md (dir_fg ''second'' (default_example ''fg'') ''1.0.1'' 3) =
     Some (SKILL_MD_TEMPLATE ''fg'' ''second'' [] ''None'' ''a letter''
             (''result = skills.run_skill('' @ dquote @ ''fg'' @ dquote @ '')'')
             ''2024-01-15'' ''1.0.1'')"
proof -
  have a: "map_of (skills world_fg) ''fg'' = Some (dir_fg ''first'' ''x = f()'' ''1.0.0'' 0)"
    by (simp add: world_fg_eq)
  have b: "map_of (skills (snd (update_skill sample_runtime world_fg ''fg'' None (Some ''second'')
                          None None None))) ''fg'' =
     Some (dir_fg ''second'' (default_example ''fg'') ''1.0.1'' 3)"
    by (simp add: update_fg)
  show ?thesis
    using a b by (simp add: dir_fg_def default_example_def dquote_def)
qed

lemma save_skill_created:
  assumes "save_skill rt w name code description parameters returns example version =
             (Inr res, w')"
  shows "\<exists>d m. map_of (skills w') name = Some d \<and> metadata_json d = Some m \<and>
               m_created m = Some (iso (rt_clock rt (ticks w)))"
proof (cases "validate_skill_name name")
  case (Some e)
  then show ?thesis using assms by (simp add: save_skill_def)
next
  case None
  note n = None
  show ?thesis
  proof (cases "length (list_skills w) \<ge> MAX_SKILLS \<and> name \<notin> set (list_skills w)")
    case True
    then show ?thesis using assms n by (simp add: save_skill_def Let_def)
  next
    case False
    note lim = False
    show ?thesis
    proof (cases "validate_code rt code")
      case (Inl e)
      then show ?thesis using assms n lim by (simp add: save_skill_def Let_def)
    next
      case (Inr v)
      note v = Inr
      show ?thesis
      proof (cases "v_valid v \<and> v_functions v \<noteq> []")
        case False
        then show ?thesis using assms n lim v
          by (auto simp: save_skill_def Let_def split: if_splits)
      next
        case True
        then have "w' = (snd (now rt (snd (now rt (snd (now rt w))))))
                     \<lparr>skills := AList.update name
                        \<lparr>implementation_py = Some code,
                         metadata_json = Some
                           \<lparr>m_name = name, m_description = description,
                            m_functions = v_functions v,
                            m_parameters = Some (case parameters of Some p \<Rightarrow> p | None \<Rightarrow> []),
                            m_returns = Some returns, m_version = Some version,
                            m_created = Some (iso (rt_clock rt (ticks w))),
                            m_updated = Some (iso (rt_clock rt (Suc (ticks w))))\<rparr>,
                         SKILL_md = Some
                           (SKILL_MD_TEMPLATE name description (params_example parameters)
                              (params_text parameters) returns
                              (if example \<noteq> [] then example else default_example name)
                              (ymd (rt_clock rt (Suc (Suc (ticks w))))) version)\<rparr>
                        (skills (snd (now rt (snd (now rt (snd (now rt w)))))))\<rparr>"
          using assms n lim v by (simp add: save_skill_def Let_def now_def)
        then show ?thesis by (simp add: update_conv')
      qed
    qed
  qed
qed

text \<open>
  C10. After a successful \<open>save_skill\<close> or \<open>update_skill\<close> of a name, the \<open>created\<close> entry of
  the stored metadata is the reading of the clock taken first by that call, whatever the
  store held under the name before: the time of creation is not kept across an overwrite.
\<close>

theorem created_reset_on_overwrite:
  assumes "save_skill rt w name code description parameters returns example version =
             (Inr res, w') \<or>
           update_skill rt w name new_code new_description new_parameters new_returns
             new_example = (Inr res, w')"
  shows "\<exists>d m. map_of (skills w') name = Some d \<and> metadata_json d = Some m \<and>
               m_created m = Some (iso (rt_clock rt (ticks w)))"
  using assms
proof
  assume "save_skill rt w name code description parameters returns example version =
             (Inr res, w')"
  then show ?thesis by (rule save_skill_created)
next
  assume u: "update_skill rt w name new_code new_description new_parameters new_returns
             new_example = (Inr res, w')"
  then obtain c d p r e v where
    "save_skill rt w name c d p r e v = (Inr res, w')"
    by (auto simp: update_skill_def Let_def split: sum.splits)
  then show ?thesis by (rule save_skill_created)
qed

theorem created_reset_witness:
  "(\<exists>d m. map_of (skills world_fg) ''fg'' = Some d \<and> metadata_json d = Some m \<and>
          m_created m = Some ''2024-01-15T10:00:00.100000'') \<and>
   (\<exists>res w'. update_skill sample_runtime world_fg ''fg'' None (Some ''second'') None None None =
               (Inr res, w') \<and>
     (\<exists>d m. map_of (skills w') ''fg'' = Some d \<and> metadata_json d = Some m \<and>
            m_created m = Some ''2024-01-15T10:00:00.100003''))"
proof -
  have c: "rt_clock sample_runtime = sample_clock" by (rule sample_fields)
  have i0: "iso (sample_clock 0) = ''2024-01-15T10:00:00.100000''"
    by (simp add: sample_clock_def str_int_def str_nat.simps digit_char_def)
  have i3: "iso (sample_clock 3) = ''2024-01-15T10:00:00.100003''"
    by (simp add: sample_clock_def str_int_def str_nat.simps digit_char_def)
  have t: "ticks world_fg = 3" by (simp add: world_fg_eq)
  have old: "\<exists>d m. map_of (skills world_fg) ''fg'' = Some d \<and> metadata_json d = Some m \<and>
          m_created m = Some ''2024-01-15T10:00:00.100000''"
    by (simp add: world_fg_eq dir_fg_def i0)
  have u: "save_skill sample_runtime world_fg ''fg'' [] [] None [] [] [] =
             (Inr \<lparr>s_success = True, s_name = ''fg'', s_functions = [''f'', ''g''],
           s_message = ''Skill '' @ quote @ ''fg'' @ quote @ '' saved with functions: f, g''\<rparr>,
      \<lparr>skills = [(''fg'', dir_fg ''second'' (default_example ''fg'') ''1.0.1'' 3)],
       ticks = 6\<rparr>) \<or>
     update_skill sample_runtime world_fg ''fg'' None (Some ''second'') None None None =
     (Inr \<lparr>s_success = True, s_name = ''fg'', s_functions = [''f'', ''g''],
           s_message = ''Skill '' @ quote @ ''fg'' @ quote @ '' saved with functions: f, g''\<rparr>,
      \<lparr>skills = [(''fg'', dir_fg ''second'' (default_example ''fg'') ''1.0.1'' 3)],
       ticks = 6\<rparr>)"
    using update_fg by simp
  have new: "\<exists>d m. map_of (skills \<lparr>skills = [(''fg'', dir_fg ''second'' (default_example ''fg'')
                                   ''1.0.1'' 3)], ticks = 6\<rparr>) ''fg'' = Some d \<and>
                 metadata_json d = Some m \<and>
                 m_created m = Some ''2024-01-15T10:00:00.100003''"
    using created_reset_on_overwrite [OF u] by (simp only: c t i3)
  show ?thesis
    using old new update_fg by blast
qed

end
